theory Spec2Isabelle
  imports Complex_Main "HOL-Library.Sublist"
begin

section \<open>Python values used by \<^verbatim>\<open>wandb/sdk/launch/docker.py\<close>\<close>

text \<open>
  A Python \<^verbatim>\<open>str\<close> is modelled as a \<^typ>\<open>string\<close>: a list of characters, each one
  standing for the code point of the same number (U+0000 to U+00FF). Exceptions are
  values of the type \<open>exn\<close>; a function that may raise returns \<open>exn + 'a\<close>, with
  \<open>Inl\<close> for the raised exception.
\<close>

datatype exn =
    DockerError string
  | ValueError string
  | IndexError
  | KeyError
  | TypeError
  | OSError string
  | UnboundLocalError string
  | LaunchError string

abbreviation apostrophe :: char where
  "apostrophe \<equiv> CHR 0x27"

abbreviation backslash :: char where
  "backslash \<equiv> CHR 0x5C"

subsection \<open>String operations\<close>

text \<open>\<^verbatim>\<open>sep.join(xs)\<close>.\<close>

fun str_join :: "string \<Rightarrow> string list \<Rightarrow> string" where
  "str_join sep [] = []"
| "str_join sep [x] = x"
| "str_join sep (x # y # ys) = x @ sep @ str_join sep (y # ys)"

text \<open>
  \<^verbatim>\<open>s.replace(old, new)\<close>: the occurrences of \<open>old\<close> are replaced from left to right,
  without overlap; an empty \<open>old\<close> matches before every character and at the end.
\<close>

function str_replace :: "string \<Rightarrow> string \<Rightarrow> string \<Rightarrow> string" where
  "str_replace old new [] = (if old = [] then new else [])"
| "str_replace old new (c # cs) =
     (if old = [] then new @ c # str_replace old new cs
      else if prefix old (c # cs) then new @ str_replace old new (drop (length old) (c # cs))
      else c # str_replace old new cs)"
  by pat_completeness auto
termination
  by (relation "measure (\<lambda>(old, new, s). length s)") auto

text \<open>\<^verbatim>\<open>s.split(sep)\<close> for a separator of one character: the fields between the separators.\<close>

fun split_on :: "char \<Rightarrow> string \<Rightarrow> string list" where
  "split_on sep [] = [[]]"
| "split_on sep (c # cs) =
     (if c = sep then [] # split_on sep cs
      else (case split_on sep cs of
              [] \<Rightarrow> [[c]]
            | w # ws \<Rightarrow> (c # w) # ws))"

text \<open>
  \<^verbatim>\<open>c.isspace()\<close> on the code points below 256: tab to carriage return, the four
  separators U+001C to U+001F, the space, U+0085 and U+00A0.
\<close>

definition is_space :: "char \<Rightarrow> bool" where
  "is_space c =
     (let n = (of_char c :: nat)
      in (9 \<le> n \<and> n \<le> 13) \<or> (28 \<le> n \<and> n \<le> 32) \<or> n = 133 \<or> n = 160)"

text \<open>
  \<^verbatim>\<open>s.split()\<close> with no separator: the maximal runs of characters that are not
  whitespace. \<open>split_ws_from cur s\<close> scans \<open>s\<close> with the word \<open>cur\<close> under way.
\<close>

fun split_ws_from :: "string \<Rightarrow> string \<Rightarrow> string list" where
  "split_ws_from cur [] = (if cur = [] then [] else [cur])"
| "split_ws_from cur (c # cs) =
     (if is_space c then (if cur = [] then split_ws_from [] cs else cur # split_ws_from [] cs)
      else split_ws_from (cur @ [c]) cs)"

definition split_ws :: "string \<Rightarrow> string list" where
  "split_ws s = split_ws_from [] s"

text \<open>\<^verbatim>\<open>str(n)\<close> for an integer: decimal digits, with a minus sign when negative.\<close>

definition digit_char :: "nat \<Rightarrow> char" where
  "digit_char d = char_of (48 + d)"

function str_of_nat :: "nat \<Rightarrow> string" where
  "str_of_nat n = (if n < 10 then [digit_char n] else str_of_nat (n div 10) @ [digit_char (n mod 10)])"
  by pat_completeness auto
termination
  by (relation "measure (\<lambda>n. n)") auto

definition str_of_int :: "int \<Rightarrow> string" where
  "str_of_int i = (if i < 0 then ''-'' @ str_of_nat (nat (- i)) else str_of_nat (nat i))"

subsection \<open>\<^verbatim>\<open>shlex.quote\<close>\<close>

text \<open>
  \<^verbatim>\<open>six.moves.shlex_quote\<close> is \<^verbatim>\<open>shlex.quote\<close>: the empty string becomes \<^verbatim>\<open>''\<close>; a string
  of safe characters only (\<^verbatim>\<open>[\w@%+=:,./-]\<close>, ASCII) is returned as it is; any other
  string is put between apostrophes, each apostrophe inside written \<^verbatim>\<open>'"'"'\<close>.
\<close>

definition is_word_char :: "char \<Rightarrow> bool" where
  "is_word_char c =
     (let n = (of_char c :: nat)
      in (48 \<le> n \<and> n \<le> 57) \<or> (65 \<le> n \<and> n \<le> 90) \<or> (97 \<le> n \<and> n \<le> 122) \<or> n = 95)"

definition is_shell_safe :: "char \<Rightarrow> bool" where
  "is_shell_safe c = (is_word_char c \<or> c \<in> set ''@%+=:,./-'')"

definition shlex_quote :: "string \<Rightarrow> string" where
  \<open>shlex_quote s =
     (if s = [] then [apostrophe, apostrophe]
      else if list_all is_shell_safe s then s
      else [apostrophe]
           @ str_replace [apostrophe] ([apostrophe] @ ''"'' @ [apostrophe] @ ''"'' @ [apostrophe]) s
           @ [apostrophe])\<close>

section \<open>The run command: \<^verbatim>\<open>get_docker_command\<close>\<close>

text \<open>
  The values of \<^verbatim>\<open>docker_args\<close> are typed \<^verbatim>\<open>Any\<close>. The code asks two things of a value:
  whether it is the boolean \<^verbatim>\<open>True\<close>, and its \<^verbatim>\<open>str()\<close>. \<open>AObj s\<close> is any other object,
  given by its \<^verbatim>\<open>str()\<close>.
\<close>

datatype arg_value = ABool bool | AInt int | AStr string | AObj string

fun py_str :: "arg_value \<Rightarrow> string" where
  "py_str (ABool b) = (if b then ''True'' else ''False'')"
| "py_str (AInt i) = str_of_int i"
| "py_str (AStr s) = s"
| "py_str (AObj s) = s"

text \<open>\<^verbatim>\<open>isinstance(value, bool) and value\<close>.\<close>

fun is_bool_true :: "arg_value \<Rightarrow> bool" where
  "is_bool_true (ABool b) = b"
| "is_bool_true _ = False"

text \<open>
  A dictionary is iterated in insertion order: \<^verbatim>\<open>env_vars\<close> and \<^verbatim>\<open>docker_args\<close> are
  lists of items in that order (\<open>img\<close> is the source's \<^verbatim>\<open>image\<close>). \<^verbatim>\<open>docker_args\<close> defaults to \<^verbatim>\<open>None\<close>, and
  \<^verbatim>\<open>if docker_args:\<close> skips \<^verbatim>\<open>None\<close> and the empty dictionary. Each loop is a left
  fold that extends \<^verbatim>\<open>cmd\<close>.
\<close>

definition get_docker_command ::
  "string \<Rightarrow> (string \<times> string) list \<Rightarrow> (string \<times> arg_value) list option \<Rightarrow> string list" where
  "get_docker_command img env_vars docker_args =
     (let docker_path = ''docker'';
          cmd = [docker_path, ''run'', ''--rm''];
          cmd = foldl (\<lambda>cmd (env_key, env_value).
                   cmd @ [''-e'', shlex_quote env_key @ ''='' @ shlex_quote env_value])
                 cmd env_vars;
          cmd = (case docker_args of
                   None \<Rightarrow> cmd
                 | Some args \<Rightarrow>
                     if args = [] then cmd
                     else foldl (\<lambda>cmd (name, value).
                            if is_bool_true value then
                              (if length name = 1 then cmd @ [''-'' @ shlex_quote name]
                               else cmd @ [''--'' @ shlex_quote name])
                            else
                              (if length name = 1
                               then cmd @ [''-'' @ shlex_quote name, shlex_quote (py_str value)]
                               else cmd @ [''--'' @ shlex_quote name, shlex_quote (py_str value)]))
                          cmd args)
      in cmd @ [shlex_quote img])"

section \<open>The host: the engine, the filesystem and the libraries\<close>

text \<open>
  A value that \<^verbatim>\<open>json.loads\<close> returns. An object keeps its items in the order of the
  text. A float is the real number it denotes; the code never reads one.
\<close>

datatype json =
    JNull
  | JBool bool
  | JInt int
  | JFloat real
  | JStr string
  | JArray "json list"
  | JObject "(string \<times> json) list"

text \<open>
  A requirement that \<^verbatim>\<open>pkg_resources.parse_requirements\<close> yields: \<open>Named n\<close> has the
  attribute \<^verbatim>\<open>name\<close> with value \<open>n\<close>; \<open>Unnamed t\<close> has no such attribute and \<open>t\<close> is its
  \<^verbatim>\<open>str()\<close>.
\<close>

datatype requirement = Named string | Unnamed string

text \<open>
  What the code does to the world outside the interpreter, in the order it does it: the
  calls of the engine wrapper \<^verbatim>\<open>wandb.docker\<close>, of the filesystem, of the logger and of
  the terminal. An event records the call; what the call answers is the host's part.
\<close>

datatype event =
    Run "string list"
  | Build "string list" string string
  | BuildxProbe
  | PathExists string
  | ReadFile string
  | WriteFile string string
  | Remove string
  | MkDTemp string
  | CopyTree string string
  | CopyFile string string
  | MetadataFile string
  | LogInfo string
  | LogWarn string
  | TermWarn string

text \<open>
  The answers of the host, parameters of the model. \<open>docker_run\<close> is \<^verbatim>\<open>docker.run\<close>, which
  returns the engine's output or raises: its answer may depend on the events before the
  call. \<open>docker_build\<close> is \<^verbatim>\<open>docker.build(tags, file, context_path)\<close>,
  \<open>is_buildx_installed\<close> is \<^verbatim>\<open>docker.is_buildx_installed()\<close>, \<open>json_loads\<close> is
  \<^verbatim>\<open>json.loads\<close>. \<open>parse_requirements p\<close> opens the file \<open>p\<close> (and may raise) and gives what
  each \<^verbatim>\<open>next()\<close> on the iterator of \<^verbatim>\<open>pkg_resources.parse_requirements\<close> does until
  \<^verbatim>\<open>StopIteration\<close>: \<open>Inr\<close> a requirement, or \<open>Inl\<close> the \<^verbatim>\<open>str()\<close> of the exception it
  raises. \<open>open_write\<close>, \<open>os_remove\<close>, \<open>copytree\<close>, \<open>copy_file\<close> and
  \<open>create_metadata_file\<close> answer \<open>None\<close> when the call returns and the exception when it
  raises. \<open>mkdtemp\<close> is the directory that \<^verbatim>\<open>tempfile.mkdtemp()\<close> creates, \<open>module_dir\<close>
  is \<^verbatim>\<open>os.path.dirname(__file__)\<close>, \<open>getuser\<close> is \<^verbatim>\<open>getpass.getuser()\<close>, \<open>geteuid\<close> is
  \<^verbatim>\<open>os.geteuid()\<close>, \<open>sys_version\<close> is \<^verbatim>\<open>sys.version\<close> and \<open>repr_of_float\<close> is the text that
  \<^verbatim>\<open>json.dumps\<close> writes for a float.
\<close>

record host =
  docker_run :: "event list \<Rightarrow> string list \<Rightarrow> exn + string"
  docker_build :: "string list \<Rightarrow> string \<Rightarrow> string \<Rightarrow> exn + string"
  is_buildx_installed :: bool
  json_loads :: "string \<Rightarrow> exn + json"
  path_exists :: "string \<Rightarrow> bool"
  parse_requirements :: "string \<Rightarrow> exn + (string + requirement) list"
  open_write :: "string \<Rightarrow> exn option"
  os_remove :: "string \<Rightarrow> exn option"
  mkdtemp :: string
  copytree :: "string \<Rightarrow> string \<Rightarrow> exn option"
  copy_file :: "string \<Rightarrow> string \<Rightarrow> exn option"
  create_metadata_file :: "string \<Rightarrow> exn option"
  module_dir :: string
  getuser :: string
  geteuid :: int
  sys_version :: string
  repr_of_float :: "real \<Rightarrow> string"

text \<open>
  The state of the process: the module's dictionary \<^verbatim>\<open>_inspected_images\<close> and the events
  so far, oldest first.
\<close>

record state =
  inspected_images :: "string \<rightharpoonup> json"
  events :: "event list"

definition emit :: "event \<Rightarrow> state \<Rightarrow> state" where
  "emit e s = s\<lparr>events := events s @ [e]\<rparr>"

section \<open>The inspection cache: \<^verbatim>\<open>docker_image_exists\<close> and \<^verbatim>\<open>docker_image_inspect\<close>\<close>

text \<open>
  \<^verbatim>\<open>value[0]\<close> on a value of \<^verbatim>\<open>json.loads\<close>: the first element of a list, the first
  character of a string, \<^verbatim>\<open>IndexError\<close> when they are empty; a dictionary has no key
  \<^verbatim>\<open>0\<close> (its keys are strings); the other values cannot be subscripted.
\<close>

fun subscript0 :: "json \<Rightarrow> exn + json" where
  "subscript0 (JArray []) = Inl IndexError"
| "subscript0 (JArray (x # xs)) = Inr x"
| "subscript0 (JStr []) = Inl IndexError"
| "subscript0 (JStr (c # cs)) = Inr (JStr [c])"
| "subscript0 (JObject items) = Inl KeyError"
| "subscript0 _ = Inl TypeError"

text \<open>\<^verbatim>\<open>except (DockerError, ValueError)\<close>: the exceptions the handler catches.\<close>

fun is_docker_or_value_error :: "exn \<Rightarrow> bool" where
  "is_docker_or_value_error (DockerError m) = True"
| "is_docker_or_value_error (ValueError m) = True"
| "is_docker_or_value_error _ = False"

text \<open>
  The body of the handler of \<^verbatim>\<open>docker_image_exists\<close>, for an exception \<open>e\<close> raised in the
  \<^verbatim>\<open>try\<close> block; an exception it does not catch goes on to the caller.
\<close>

definition docker_image_exists_except :: "bool \<Rightarrow> exn \<Rightarrow> state \<Rightarrow> (exn + bool) \<times> state" where
  "docker_image_exists_except should_raise e s =
     (if is_docker_or_value_error e then
        (if should_raise then (Inl e, s)
         else (Inr False, emit (LogInfo ''Base image not found. Generating new base image'') s))
      else (Inl e, s))"

text \<open>
  The assertion \<^verbatim>\<open>isinstance(data, str)\<close> holds of every answer of \<open>docker_run\<close>, a
  string.
\<close>

definition docker_image_exists ::
  "'a host_scheme \<Rightarrow> string \<Rightarrow> bool \<Rightarrow> state \<Rightarrow> (exn + bool) \<times> state" where
  "docker_image_exists h docker_image should_raise s =
     (let s = emit (LogInfo ''Checking if base image exists...'') s;
          argv = [''docker'', ''image'', ''inspect'', docker_image];
          answer = docker_run h (events s) argv;
          s = emit (Run argv) s
      in case answer of
           Inl e \<Rightarrow> docker_image_exists_except should_raise e s
         | Inr data \<Rightarrow>
             (case json_loads h data of
                Inl e \<Rightarrow> docker_image_exists_except should_raise e s
              | Inr v \<Rightarrow>
                  (case subscript0 v of
                     Inl e \<Rightarrow> docker_image_exists_except should_raise e s
                   | Inr parsed \<Rightarrow>
                       (let s = s\<lparr>inspected_images := (inspected_images s)(docker_image \<mapsto> parsed)\<rparr>;
                            s = emit (LogInfo ''Base image found. Won't generate new base image'') s
                        in (Inr True, s)))))"

text \<open>
  \<^verbatim>\<open>d.get(k) is None\<close> holds when the key is absent and when its value is \<^verbatim>\<open>None\<close>
  (JSON \<^verbatim>\<open>null\<close>); \<^verbatim>\<open>d.get(k, {})\<close> is the empty dictionary only when the key is absent.
\<close>

definition docker_image_inspect ::
  "'a host_scheme \<Rightarrow> string \<Rightarrow> state \<Rightarrow> (exn + json) \<times> state" where
  "docker_image_inspect h docker_image s =
     (let cached = inspected_images s docker_image;
          (raised, s) =
            (if cached = None \<or> cached = Some JNull then
               (case docker_image_exists h docker_image True s of
                  (Inl e, s') \<Rightarrow> (Some e, s')
                | (Inr found, s') \<Rightarrow> (None, s'))
             else (None, s))
      in case raised of
           Some e \<Rightarrow> (Inl e, s)
         | None \<Rightarrow>
             (case inspected_images s docker_image of
                None \<Rightarrow> (Inr (JObject []), s)
              | Some v \<Rightarrow> (Inr v, s)))"

section \<open>The image URI: \<^verbatim>\<open>_get_docker_image_uri\<close>\<close>

text \<open>
  The fields of \<^verbatim>\<open>LaunchProject\<close> that this module reads. An attribute that may be
  \<^verbatim>\<open>None\<close> is an option.
\<close>

record launch_project =
  project_dir :: string
  image_name :: "string option"
  run_id :: string
  docker_image :: "string option"
  docker_user_id :: "int option"
  deps_type :: "string option"
  python_version :: "string option"
  cuda :: bool
  cuda_version :: "string option"
  target_project :: string
  target_entity :: string
  override_config :: json
  override_artifacts :: json

text \<open>
  \<^verbatim>\<open>GitRepo(work_dir).last_commit\<close> comes from \<^verbatim>\<open>wandb/sdk/lib/git.py\<close>: it is the
  parameter \<open>last_commit\<close>, the revision hash of a directory or \<^verbatim>\<open>None\<close>.
  The source's name starts with an underscore, which a constant's name cannot.
\<close>

definition get_docker_image_uri ::
  "(string \<Rightarrow> string option) \<Rightarrow> string option \<Rightarrow> string \<Rightarrow> string \<Rightarrow> string" where
  "get_docker_image_uri last_commit name work_dir image_id =
     (let name = (case name of
                    None \<Rightarrow> ''wandb-launch''
                  | Some n \<Rightarrow> if n \<noteq> [] then str_replace '' '' ''-'' n else ''wandb-launch'');
          git_commit = last_commit work_dir;
          version_string =
            (case git_commit of
               None \<Rightarrow> '':'' @ image_id
             | Some h \<Rightarrow> if h \<noteq> [] then '':'' @ take 7 h @ image_id else '':'' @ image_id)
      in name @ version_string)"

definition construct_local_image_uri ::
  "(string \<Rightarrow> string option) \<Rightarrow> 'a launch_project_scheme \<Rightarrow> string" where
  "construct_local_image_uri last_commit launch_project =
     get_docker_image_uri last_commit
       (image_name launch_project) (project_dir launch_project) (run_id launch_project)"

section \<open>\<^verbatim>\<open>json.dumps\<close>\<close>

text \<open>
  \<^verbatim>\<open>json.dumps\<close> with its defaults (\<^verbatim>\<open>ensure_ascii=True\<close>, separators \<^verbatim>\<open>", "\<close> and
  \<^verbatim>\<open>": "\<close>). In a string the quotation mark, the backslash and the control characters
  with a short form are written with a backslash; every other character outside
  \<^verbatim>\<open>' '\<close> to \<^verbatim>\<open>'~'\<close> is written \<^verbatim>\<open>\u00XX\<close> with lower-case hexadecimal digits. The text
  of a float is the parameter \<open>float_repr\<close>.
\<close>

definition hex_digit :: "nat \<Rightarrow> char" where
  "hex_digit d = ''0123456789abcdef'' ! (d mod 16)"

definition json_escape :: "char \<Rightarrow> string" where
  "json_escape c =
     (if c = CHR 0x22 then [backslash, CHR 0x22]
      else if c = backslash then [backslash, backslash]
      else if c = CHR 0x0A then [backslash, CHR ''n'']
      else if c = CHR 0x0D then [backslash, CHR ''r'']
      else if c = CHR 0x09 then [backslash, CHR ''t'']
      else if c = CHR 0x08 then [backslash, CHR ''b'']
      else if c = CHR 0x0C then [backslash, CHR ''f'']
      else if 32 \<le> (of_char c :: nat) \<and> (of_char c :: nat) \<le> 126 then [c]
      else [backslash, CHR ''u'', CHR ''0'', CHR ''0'',
            hex_digit (of_char c div 16), hex_digit (of_char c mod 16)])"

definition json_encode_str :: "string \<Rightarrow> string" where
  "json_encode_str s = [CHR 0x22] @ concat (map json_escape s) @ [CHR 0x22]"

fun json_dumps :: "(real \<Rightarrow> string) \<Rightarrow> json \<Rightarrow> string" where
  "json_dumps float_repr JNull = ''null''"
| "json_dumps float_repr (JBool b) = (if b then ''true'' else ''false'')"
| "json_dumps float_repr (JInt i) = str_of_int i"
| "json_dumps float_repr (JFloat x) = float_repr x"
| "json_dumps float_repr (JStr s) = json_encode_str s"
| "json_dumps float_repr (JArray xs) =
     ''['' @ str_join '', '' (map (json_dumps float_repr) xs) @ '']''"
| "json_dumps float_repr (JObject items) =
     ''{'' @ str_join '', ''
              (map (\<lambda>item. json_encode_str (fst item) @ '': '' @ json_dumps float_repr (snd item))
                 items)
      @ ''}''"

section \<open>The environment of the container: \<^verbatim>\<open>get_env_vars_dict\<close>\<close>

text \<open>What the code reads of the \<^verbatim>\<open>Api\<close> object: \<^verbatim>\<open>api.settings("base_url")\<close> and \<^verbatim>\<open>api.api_key\<close>.\<close>

record api =
  base_url :: string
  api_key :: string

text \<open>
  A dictionary of strings is the list of its items in insertion order; \<^verbatim>\<open>d[k] = v\<close>
  replaces the value of a key that is there and appends a new key.
\<close>

fun dict_set :: "(string \<times> 'v) list \<Rightarrow> string \<Rightarrow> 'v \<Rightarrow> (string \<times> 'v) list" where
  "dict_set [] k v = [(k, v)]"
| "dict_set ((k', v') # d) k v =
     (if k' = k then (k, v) # d else (k', v') # dict_set d k v)"

text \<open>
  \<^verbatim>\<open>_is_wandb_local_uri\<close> and \<^verbatim>\<open>_is_wandb_dev_uri\<close> are defined in \<^verbatim>\<open>launch/utils.py\<close>:
  they are the parameters \<open>is_wandb_local_uri\<close> and \<open>is_wandb_dev_uri\<close>. \<open>platform\<close> is
  \<^verbatim>\<open>sys.platform\<close>. The assignment \<^verbatim>\<open>_, _, port = url.split(":")\<close> raises \<^verbatim>\<open>ValueError\<close>
  unless the URL has three fields. A string is true when it is not empty.
\<close>

definition get_env_vars_dict ::
  "(string \<Rightarrow> bool) \<Rightarrow> (string \<Rightarrow> bool) \<Rightarrow> string \<Rightarrow> (real \<Rightarrow> string)
    \<Rightarrow> 'a launch_project_scheme \<Rightarrow> 'b api_scheme \<Rightarrow> exn + (string \<times> string) list" where
  "get_env_vars_dict is_wandb_local_uri is_wandb_dev_uri platform float_repr launch_project api =
     (let env_vars = [];
          url =
            (if is_wandb_local_uri (base_url api) \<and> platform = ''darwin'' then
               (case split_on (CHR '':'') (base_url api) of
                  [a, b, port] \<Rightarrow> Inr (''http://host.docker.internal:'' @ port)
                | _ \<Rightarrow> Inl (ValueError ''wrong number of values to unpack''))
             else if is_wandb_dev_uri (base_url api) then Inr ''http://host.docker.internal:9002''
             else Inr (base_url api))
      in case url of
           Inl e \<Rightarrow> Inl e
         | Inr url \<Rightarrow>
             (let env_vars = dict_set env_vars ''WANDB_BASE_URL'' url;
                  env_vars = dict_set env_vars ''WANDB_API_KEY'' (api_key api);
                  env_vars = dict_set env_vars ''WANDB_PROJECT'' (target_project launch_project);
                  env_vars = dict_set env_vars ''WANDB_ENTITY'' (target_entity launch_project);
                  env_vars = dict_set env_vars ''WANDB_LAUNCH'' ''True'';
                  env_vars = dict_set env_vars ''WANDB_RUN_ID'' (run_id launch_project);
                  env_vars =
                    (case docker_image launch_project of
                       None \<Rightarrow> env_vars
                     | Some i \<Rightarrow> if i \<noteq> [] then dict_set env_vars ''WANDB_DOCKER'' i else env_vars);
                  env_vars = dict_set env_vars ''WANDB_CONFIG''
                               (json_dumps float_repr (override_config launch_project));
                  env_vars = dict_set env_vars ''WANDB_ARTIFACTS''
                               (json_dumps float_repr (override_artifacts launch_project))
              in Inr env_vars))"

section \<open>Rendering the build file: \<^verbatim>\<open>generate_dockerfile\<close>\<close>

subsection \<open>The templates\<close>

text \<open>
  Each template is a function of the values that \<^verbatim>\<open>str.format\<close> puts in, one line of the
  source after the other. In the source a backslash at the end of a line of a template
  joins the line with the next one: neither the backslash nor the line break is part
  of the string. An integer is passed as its \<^verbatim>\<open>str()\<close>.
\<close>

definition DOCKERFILE_TEMPLATE ::
  "string \<Rightarrow> string \<Rightarrow> string \<Rightarrow> string \<Rightarrow> string \<Rightarrow> string \<Rightarrow> string \<Rightarrow> string" where
  \<open>DOCKERFILE_TEMPLATE py_build_image requirements_section base_setup uid user_setup workdir
     entrypoint_setup =
     ''\<newline>''
     @ ''# ----- stage 1: build -----\<newline>''
     @ ''FROM '' @ py_build_image @ '' as build\<newline>''
     @ ''\<newline>''
     @ ''# requirements section depends on pip vs conda, and presence of buildx\<newline>''
     @ requirements_section @ ''\<newline>''
     @ ''\<newline>''
     @ ''# ----- stage 2: base -----\<newline>''
     @ base_setup @ ''\<newline>''
     @ ''\<newline>''
     @ ''COPY --from=build /env /env\<newline>''
     @ ''ENV PATH="/env/bin:$PATH"\<newline>''
     @ ''\<newline>''
     @ ''ENV SHELL /bin/bash\<newline>''
     @ ''\<newline>''
     @ ''# some resources (eg sagemaker) must run on root\<newline>''
     @ user_setup @ ''\<newline>''
     @ ''\<newline>''
     @ ''WORKDIR '' @ workdir @ ''\<newline>''
     @ ''RUN chown -R '' @ uid @ '' '' @ workdir @ ''\<newline>''
     @ ''\<newline>''
     @ ''# make artifacts cache dir unrelated to build\<newline>''
     @ ''RUN mkdir -p '' @ workdir @ ''/.cache && chown -R '' @ uid @ '' '' @ workdir
       @ ''/.cache\<newline>''
     @ ''\<newline>''
     @ ''# copy code/etc\<newline>''
     @ ''COPY --chown='' @ uid @ '' src/ '' @ workdir @ ''\<newline>''
     @ ''\<newline>''
     @ ''ENV PYTHONUNBUFFERED=1\<newline>''
     @ ''\<newline>''
     @ ''# some resources (eg sagemaker) have unique entrypoint requirements\<newline>''
     @ entrypoint_setup @ ''\<newline>''\<close>

definition PYTHON_SETUP_TEMPLATE :: "string \<Rightarrow> string" where
  "PYTHON_SETUP_TEMPLATE py_base_image =
     ''\<newline>''
     @ ''FROM '' @ py_base_image @ '' as base\<newline>''"

definition CUDA_SETUP_TEMPLATE :: "string \<Rightarrow> string \<Rightarrow> string \<Rightarrow> string" where
  \<open>CUDA_SETUP_TEMPLATE cuda_base_image python_packages py_version =
     ''\<newline>''
     @ ''FROM '' @ cuda_base_image @ '' as base\<newline>''
     @ ''RUN apt-get update -qq && apt-get install -y software-properties-common && add-apt-repository -y ppa:deadsnakes/ppa\<newline>''
     @ ''\<newline>''
     @ ''# install python\<newline>''
     @ ''RUN apt-get update -qq && apt-get install --no-install-recommends -y ''
       @ ''    '' @ python_packages @ '' ''
       @ ''    && apt-get -qq purge && apt-get -qq clean ''
       @ ''    && rm -rf /var/lib/apt/lists/*\<newline>''
     @ ''\<newline>''
     @ ''# make sure `python` points at the right version\<newline>''
     @ ''RUN update-alternatives --install /usr/bin/python python /usr/bin/python''
       @ py_version @ '' 1 ''
       @ ''    && update-alternatives --install /usr/local/bin/python python /usr/bin/python''
       @ py_version @ '' 1\<newline>''\<close>

definition PIP_TEMPLATE :: "string \<Rightarrow> string \<Rightarrow> string \<Rightarrow> string" where
  \<open>PIP_TEMPLATE buildx_optional_prefix requirements_files pip_install =
     ''\<newline>''
     @ ''RUN python -m venv /env\<newline>''
     @ ''# make sure we install into the env\<newline>''
     @ ''ENV PATH="/env/bin:$PATH"\<newline>''
     @ ''COPY '' @ requirements_files @ '' .\<newline>''
     @ buildx_optional_prefix @ '' '' @ pip_install @ ''\<newline>''\<close>

definition CONDA_TEMPLATE :: "string \<Rightarrow> string" where
  "CONDA_TEMPLATE buildx_optional_prefix =
     ''\<newline>''
     @ ''COPY src/environment.yml .\<newline>''
     @ buildx_optional_prefix @ '' conda env create -f environment.yml -n env\<newline>''
     @ ''\<newline>''
     @ ''# pack the environment so that we can transfer to the base image\<newline>''
     @ ''RUN conda install -c conda-forge conda-pack\<newline>''
     @ ''RUN conda pack -n env -o /tmp/env.tar && ''
       @ ''    mkdir /env && cd /env && tar xf /tmp/env.tar && ''
       @ ''    rm /tmp/env.tar\<newline>''
     @ ''RUN /env/bin/conda-unpack\<newline>''"

definition USER_CREATE_TEMPLATE :: "string \<Rightarrow> string \<Rightarrow> string" where
  "USER_CREATE_TEMPLATE uid user =
     ''\<newline>''
     @ ''RUN useradd ''
       @ ''    --create-home ''
       @ ''    --no-log-init ''
       @ ''    --shell /bin/bash ''
       @ ''    --gid 0 ''
       @ ''    --uid '' @ uid @ '' ''
       @ ''    '' @ user @ ''\<newline>''"

definition SAGEMAKER_ENTRYPOINT_TEMPLATE :: "string \<Rightarrow> string" where
  \<open>SAGEMAKER_ENTRYPOINT_TEMPLATE workdir =
     ''\<newline>''
     @ ''COPY ./src/train '' @ workdir @ ''\<newline>''
     @ ''RUN chmod +x '' @ workdir @ ''/train\<newline>''
     @ ''ENTRYPOINT ["sh", "train"]\<newline>''\<close>

definition GENERATED_DOCKERFILE_NAME :: string where
  "GENERATED_DOCKERFILE_NAME = ''Dockerfile.wandb-autogenerated''"

definition DEFAULT_CUDA_VERSION :: string where
  "DEFAULT_CUDA_VERSION = ''10.0''"

subsection \<open>Paths and the interpreter's version\<close>

text \<open>\<^verbatim>\<open>os.path.join(a, b)\<close> of \<^verbatim>\<open>posixpath\<close>.\<close>

definition os_path_join :: "string \<Rightarrow> string \<Rightarrow> string" where
  "os_path_join a b =
     (if prefix ''/'' b then b
      else if a = [] \<or> suffix ''/'' a then a @ b
      else a @ ''/'' @ b)"

text \<open>
  \<^verbatim>\<open>sys.version.split()[0].split(".")\<close>: the subscript raises \<^verbatim>\<open>IndexError\<close> on an empty
  list.
\<close>

definition get_current_python_version :: "'a host_scheme \<Rightarrow> exn + string \<times> string" where
  "get_current_python_version h =
     (case split_ws (sys_version h) of
        [] \<Rightarrow> Inl IndexError
      | v # rest \<Rightarrow>
          (let full_version = split_on (CHR ''.'') v
           in case full_version of
                [] \<Rightarrow> Inl IndexError
              | major # minor \<Rightarrow>
                  (let version = (if length full_version \<ge> 2
                                  then str_join ''.'' (take 2 full_version)
                                  else major @ ''.0'')
                   in Inr (version, major))))"

subsection \<open>The fragments\<close>

definition get_base_setup :: "'a launch_project_scheme \<Rightarrow> string \<Rightarrow> string \<Rightarrow> string" where
  "get_base_setup launch_project py_version py_major =
     (let python_base_image = ''python:'' @ py_version @ ''-buster''
      in if cuda launch_project then
           (let cuda_ver = (case cuda_version launch_project of
                              None \<Rightarrow> DEFAULT_CUDA_VERSION
                            | Some v \<Rightarrow> if v \<noteq> [] then v else DEFAULT_CUDA_VERSION);
                python_packages =
                  (if py_major = ''2'' then
                     [''python'' @ py_version, ''libpython'' @ py_version,
                      ''python-pip'', ''python-setuptools'']
                   else
                     [''python'' @ py_version, ''libpython'' @ py_version,
                      ''python3-pip'', ''python3-setuptools''])
            in CUDA_SETUP_TEMPLATE (''nvidia/cuda:'' @ cuda_ver @ ''-runtime'')
                 (str_join ('' '' @ [backslash] @ ''\<newline>'') python_packages) py_version)
         else PYTHON_SETUP_TEMPLATE python_base_image)"

text \<open>
  \<^verbatim>\<open>s.lower()\<close> on the code points below 256: the letters A to Z, and U+00C0 to U+00DE
  but the multiplication sign U+00D7, move up by 32.
\<close>

definition char_lower :: "char \<Rightarrow> char" where
  "char_lower c =
     (let n = (of_char c :: nat)
      in if (65 \<le> n \<and> n \<le> 90) \<or> (192 \<le> n \<and> n \<le> 222 \<and> n \<noteq> 215) then char_of (n + 32)
         else c)"

definition str_lower :: "string \<Rightarrow> string" where
  "str_lower s = map char_lower s"

text \<open>
  \<^verbatim>\<open>include_only\<close> is a set of strings. The model keeps its elements in the order of
  their first insertion, and \<^verbatim>\<open>",".join(include_only)\<close> joins them in that order
  (Python leaves the order of a set open).
\<close>

definition set_add :: "string list \<Rightarrow> string \<Rightarrow> string list" where
  "set_add xs x = (if x \<in> set xs then xs else xs @ [x])"

text \<open>
  The loop of \<^verbatim>\<open>_parse_existing_requirements\<close> over what \<^verbatim>\<open>next(iter)\<close> does, until
  \<^verbatim>\<open>StopIteration\<close>: a requirement adds its quoted name to \<^verbatim>\<open>include_only\<close>, an
  exception is logged and the loop goes on.
\<close>

fun parse_requirements_loop ::
  "(string + requirement) list \<Rightarrow> string list \<Rightarrow> state \<Rightarrow> string list \<times> state" where
  "parse_requirements_loop [] include_only s = (include_only, s)"
| "parse_requirements_loop (Inr pkg # rest) include_only s =
     (let name = (case pkg of Named n \<Rightarrow> str_lower n | Unnamed t \<Rightarrow> t)
      in parse_requirements_loop rest (set_add include_only (shlex_quote name)) s)"
| "parse_requirements_loop (Inl e # rest) include_only s =
     parse_requirements_loop rest include_only
       (emit (LogWarn (''Unable to parse requirements.txt: '' @ e)) s)"

definition parse_existing_requirements ::
  "'a host_scheme \<Rightarrow> 'b launch_project_scheme \<Rightarrow> state \<Rightarrow> (exn + string) \<times> state" where
  "parse_existing_requirements h launch_project s =
     (let requirements_line = [];
          base_requirements = os_path_join (project_dir launch_project) ''requirements.txt'';
          s = emit (PathExists base_requirements) s
      in if path_exists h base_requirements then
           (let s = emit (ReadFile base_requirements) s
            in case parse_requirements h base_requirements of
                 Inl e \<Rightarrow> (Inl e, s)
               | Inr outcomes \<Rightarrow>
                   (let (include_only, s) = parse_requirements_loop outcomes [] s
                    in (Inr (requirements_line
                             @ ''WANDB_ONLY_INCLUDE='' @ str_join '','' include_only @ '' ''), s)))
         else (Inr requirements_line, s))"

text \<open>
  \<^verbatim>\<open>get_requirements_section\<close>. The source's variable \<^verbatim>\<open>prefix\<close> is
  \<open>buildx_optional_prefix\<close> here: it is assigned when BuildX is missing, and assigned again
  in the pip and conda branches when BuildX is installed, so it is bound wherever it
  is read.
\<close>

definition get_requirements_section ::
  "'a host_scheme \<Rightarrow> 'b launch_project_scheme \<Rightarrow> state \<Rightarrow> (exn + string) \<times> state" where
  "get_requirements_section h launch_project s =
     (let buildx_installed = is_buildx_installed h;
          s = emit BuildxProbe s;
          s = (if \<not> buildx_installed then
                 emit (TermWarn ''Docker BuildX is not installed, for faster builds upgrade docker: https://github.com/docker/buildx#installing'') s
               else s);
          buildx_optional_prefix = ''RUN WANDB_DISABLE_CACHE=true''
      in if deps_type launch_project = Some ''pip'' then
           (let requirements_files = [''src/requirements.txt''];
                pip_install_line = ''pip install -r requirements.txt'';
                frozen = os_path_join (project_dir launch_project) ''requirements.frozen.txt'';
                s = emit (PathExists frozen) s;
                (lines, s) =
                  (if path_exists h frozen then
                     (case parse_existing_requirements h launch_project s of
                        (Inl e, s') \<Rightarrow> (Inl e, s')
                      | (Inr existing, s') \<Rightarrow>
                          (Inr (requirements_files
                                  @ [''src/requirements.frozen.txt'', ''_wandb_bootstrap.py''],
                                existing @ ''python _wandb_bootstrap.py''), s'))
                   else (Inr (requirements_files, pip_install_line), s))
            in case lines of
                 Inl e \<Rightarrow> (Inl e, s)
               | Inr (requirements_files, pip_install_line) \<Rightarrow>
                   (let buildx_optional_prefix =
                          (if buildx_installed
                           then ''RUN --mount=type=cache,mode=0777,target=/root/.cache/pip''
                           else buildx_optional_prefix)
                    in (Inr (PIP_TEMPLATE buildx_optional_prefix
                               (str_join '' '' requirements_files) pip_install_line), s)))
         else if deps_type launch_project = Some ''conda'' then
           (let buildx_optional_prefix =
                  (if buildx_installed
                   then ''RUN --mount=type=cache,mode=0777,target=/opt/conda/pkgs''
                   else buildx_optional_prefix)
            in (Inr (CONDA_TEMPLATE buildx_optional_prefix), s))
         else (Inr [], s))"

text \<open>
  \<^verbatim>\<open>x or y\<close> takes \<^verbatim>\<open>y\<close> when \<^verbatim>\<open>x\<close> is \<^verbatim>\<open>None\<close> or zero; \<^verbatim>\<open>not s\<close> holds of \<^verbatim>\<open>None\<close> and of
  the empty string.
\<close>

definition get_docker_user :: "'a host_scheme \<Rightarrow> 'b launch_project_scheme \<Rightarrow> string \<Rightarrow> string \<times> int" where
  "get_docker_user h launch_project runner_type =
     (let username = getuser h
      in if runner_type = ''sagemaker''
            \<and> (docker_image launch_project = None \<or> docker_image launch_project = Some [])
         then (username, 0)
         else (let userid = (case docker_user_id launch_project of
                               None \<Rightarrow> geteuid h
                             | Some u \<Rightarrow> if u \<noteq> 0 then u else geteuid h)
               in (username, userid)))"

definition get_user_setup :: "string \<Rightarrow> int \<Rightarrow> string \<Rightarrow> string" where
  "get_user_setup username userid runner_type =
     (if runner_type = ''sagemaker'' then ''USER root''
      else (let user_create = USER_CREATE_TEMPLATE (str_of_int userid) username;
                user_create = user_create @ ''\<newline>USER '' @ username
            in user_create))"

text \<open>
  \<^verbatim>\<open>get_entrypoint_setup\<close>. For \<^verbatim>\<open>sagemaker\<close> the command is written to the file
  \<^verbatim>\<open>train\<close> of the project directory: \<open>WriteFile\<close> records \<^verbatim>\<open>open(path, "w")\<close> with the text
  to write, and the host says whether the file can be opened.
\<close>

definition get_entrypoint_setup ::
  "'a host_scheme \<Rightarrow> 'b launch_project_scheme \<Rightarrow> string \<Rightarrow> string \<Rightarrow> string \<Rightarrow> state
    \<Rightarrow> (exn + string) \<times> state" where
  "get_entrypoint_setup h launch_project entry_cmd workdir runner_type s =
     (if runner_type = ''sagemaker'' then
        (let train = os_path_join (project_dir launch_project) ''train'';
             s = emit (WriteFile train entry_cmd) s
         in case open_write h train of
              Some e \<Rightarrow> (Inl e, s)
            | None \<Rightarrow> (Inr (SAGEMAKER_ENTRYPOINT_TEMPLATE workdir), s))
      else
        (let command_arr = json_dumps (repr_of_float h) (JArray (map JStr (split_ws entry_cmd)))
         in (Inr (''ENTRYPOINT '' @ command_arr), s)))"

subsection \<open>The document\<close>

text \<open>
  \<^verbatim>\<open>generate_dockerfile\<close>; its parameter \<^verbatim>\<open>api\<close> is not read. \<^verbatim>\<open>python_build_image\<close> is
  assigned for the dependency kinds \<^verbatim>\<open>pip\<close>, \<^verbatim>\<open>None\<close> and \<^verbatim>\<open>conda\<close> only: for any other
  kind the last statement, which reads it, raises \<^verbatim>\<open>UnboundLocalError\<close>.
\<close>

definition generate_dockerfile ::
  "'a host_scheme \<Rightarrow> 'b launch_project_scheme \<Rightarrow> string \<Rightarrow> string \<Rightarrow> state
    \<Rightarrow> (exn + string) \<times> state" where
  "generate_dockerfile h launch_project entry_cmd runner_type s =
     (let versions =
            (case python_version launch_project of
               None \<Rightarrow> get_current_python_version h
             | Some pv \<Rightarrow>
                 if pv \<noteq> [] then
                   (let spl = take 2 (split_on (CHR ''.'') pv)
                    in case spl of
                         [] \<Rightarrow> Inl IndexError
                       | major # minor \<Rightarrow> Inr (str_join ''.'' spl, major))
                 else get_current_python_version h)
      in case versions of
           Inl e \<Rightarrow> (Inl e, s)
         | Inr (py_version, py_major) \<Rightarrow>
             (let python_build_image =
                    (if deps_type launch_project = Some ''pip'' \<or> deps_type launch_project = None
                     then Some (''python:'' @ py_version)
                     else if deps_type launch_project = Some ''conda''
                     then Some (if py_major = ''3'' then ''continuumio/miniconda3:latest''
                                else ''continuumio/miniconda:latest'')
                     else None)
              in case get_requirements_section h launch_project s of
                   (Inl e, s) \<Rightarrow> (Inl e, s)
                 | (Inr requirements_section, s) \<Rightarrow>
                     (let python_base_setup = get_base_setup launch_project py_version py_major;
                          (username, userid) = get_docker_user h launch_project runner_type;
                          user_setup = get_user_setup username userid runner_type;
                          workdir = ''/home/'' @ username
                      in case get_entrypoint_setup h launch_project entry_cmd workdir
                                runner_type s of
                           (Inl e, s) \<Rightarrow> (Inl e, s)
                         | (Inr entrypoint_section, s) \<Rightarrow>
                             (case python_build_image of
                                None \<Rightarrow> (Inl (UnboundLocalError ''python_build_image''), s)
                              | Some build_image \<Rightarrow>
                                  (Inr (DOCKERFILE_TEMPLATE build_image requirements_section
                                          python_base_setup (str_of_int userid) user_setup
                                          workdir entrypoint_section), s)))))"

section \<open>Building the image: \<^verbatim>\<open>generate_docker_image\<close>\<close>

text \<open>
  \<^verbatim>\<open>_create_docker_build_ctx\<close>: the temporary directory, the copy of the project in its
  \<^verbatim>\<open>src\<close>, the bootstrap script, \<^verbatim>\<open>runtime.txt\<close> when a Python version is given, and the
  generated build file.
\<close>

definition create_docker_build_ctx ::
  "'a host_scheme \<Rightarrow> 'b launch_project_scheme \<Rightarrow> string \<Rightarrow> state \<Rightarrow> (exn + string) \<times> state" where
  "create_docker_build_ctx h launch_project dockerfile_contents s =
     (let directory = mkdtemp h;
          s = emit (MkDTemp directory) s;
          dst_path = os_path_join directory ''src'';
          s = emit (CopyTree (project_dir launch_project) dst_path) s
      in case copytree h (project_dir launch_project) dst_path of
           Some e \<Rightarrow> (Inl e, s)
         | None \<Rightarrow>
             (let bootstrap = os_path_join (os_path_join (module_dir h) ''templates'')
                                ''_wandb_bootstrap.py'';
                  s = emit (CopyFile bootstrap directory) s
              in case copy_file h bootstrap directory of
                   Some e \<Rightarrow> (Inl e, s)
                 | None \<Rightarrow>
                     (let (raised, s) =
                            (case python_version launch_project of
                               None \<Rightarrow> (None, s)
                             | Some pv \<Rightarrow>
                                 if pv \<noteq> [] then
                                   (let runtime_path = os_path_join dst_path ''runtime.txt''
                                    in (open_write h runtime_path,
                                        emit (WriteFile runtime_path (''python-'' @ pv)) s))
                                 else (None, s))
                      in case raised of
                           Some e \<Rightarrow> (Inl e, s)
                         | None \<Rightarrow>
                             (let dockerfile = os_path_join directory GENERATED_DOCKERFILE_NAME;
                                  s = emit (WriteFile dockerfile dockerfile_contents) s
                              in case open_write h dockerfile of
                                   Some e \<Rightarrow> (Inl e, s)
                                 | None \<Rightarrow> (Inr directory, s)))))"

text \<open>
  \<^verbatim>\<open>generate_docker_image\<close>. \<open>entry_cmd\<close> is the value of
  \<^verbatim>\<open>get_entry_point_command(entrypoint, launch_project.override_args)[0]\<close>, and
  \<^verbatim>\<open>create_metadata_file\<close> is the host's: both functions are defined in
  \<^verbatim>\<open>_project_spec.py\<close>. A \<^verbatim>\<open>DockerError\<close> of the build is raised again as \<^verbatim>\<open>LaunchError\<close>
  (\<open>m\<close> is the \<^verbatim>\<open>str()\<close> of the error); the statements after the first \<^verbatim>\<open>try\<close> run only when
  the build returns. \<^verbatim>\<open>except Exception\<close> catches whatever \<^verbatim>\<open>os.remove\<close> raises.
\<close>

definition generate_docker_image ::
  "'a host_scheme \<Rightarrow> 'b launch_project_scheme \<Rightarrow> string \<Rightarrow> string \<Rightarrow> string \<Rightarrow> state
    \<Rightarrow> (exn + string) \<times> state" where
  "generate_docker_image h launch_project image_uri entry_cmd runner_type s =
     (case generate_dockerfile h launch_project entry_cmd runner_type s of
        (Inl e, s) \<Rightarrow> (Inl e, s)
      | (Inr dockerfile_str, s) \<Rightarrow>
          (let s = emit (MetadataFile image_uri) s
           in case create_metadata_file h image_uri of
                Some e \<Rightarrow> (Inl e, s)
              | None \<Rightarrow>
                  (case create_docker_build_ctx h launch_project dockerfile_str s of
                     (Inl e, s) \<Rightarrow> (Inl e, s)
                   | (Inr build_ctx_path, s) \<Rightarrow>
                       (let dockerfile = os_path_join build_ctx_path GENERATED_DOCKERFILE_NAME;
                            s = emit (Build [image_uri] dockerfile build_ctx_path) s
                        in case docker_build h [image_uri] dockerfile build_ctx_path of
                             Inl (DockerError m) \<Rightarrow>
                               (Inl (LaunchError
                                       (''Error communicating with docker client: '' @ m)), s)
                           | Inl e \<Rightarrow> (Inl e, s)
                           | Inr built \<Rightarrow>
                               (let s = emit (Remove build_ctx_path) s;
                                    s = (case os_remove h build_ctx_path of
                                           None \<Rightarrow> s
                                         | Some e \<Rightarrow>
                                             emit (LogInfo (''Temporary docker context file ''
                                                            @ build_ctx_path
                                                            @ '' was not deleted.'')) s)
                                in (Inr built, s))))))"

section \<open>Example hosts and projects\<close>

text \<open>
  A host with BuildX, no image in the engine, no file in the project directory, and a
  build that returns; \<^verbatim>\<open>os.remove\<close> raises on the build context, which is a directory.
  The other hosts differ from it in what the engine prints.
\<close>

definition example_host :: host where
  "example_host =
     \<lparr>docker_run = (\<lambda>hist argv. Inl (DockerError ''No such image'')),
      docker_build = (\<lambda>tags file ctx. Inr ''sha256:0123''),
      is_buildx_installed = True,
      json_loads = (\<lambda>data. Inl (ValueError ''Expecting value'')),
      path_exists = (\<lambda>p. False),
      parse_requirements = (\<lambda>p. Inr []),
      open_write = (\<lambda>p. None),
      os_remove = (\<lambda>p. Some (OSError ''Is a directory'')),
      mkdtemp = ''/tmp/tmpabc'',
      copytree = (\<lambda>src dst. None),
      copy_file = (\<lambda>src dst. None),
      create_metadata_file = (\<lambda>uri. None),
      module_dir = ''/site/wandb/sdk/launch'',
      getuser = ''alice'',
      geteuid = 1000,
      sys_version = ''3.8.10 (default, Jun  2 2021) [GCC 9.4.0]'',
      repr_of_float = (\<lambda>x. ''0.0'')\<rparr>"

text \<open>The engine prints an array of one record, of two numbers, of \<^verbatim>\<open>null\<close>, or no JSON.\<close>

definition record_host :: host where
  \<open>record_host = example_host
     \<lparr>docker_run := (\<lambda>hist argv. Inr ''[{"Id": "sha256:0123"}]''),
      json_loads := (\<lambda>data. if data = ''[{"Id": "sha256:0123"}]''
                             then Inr (JArray [JObject [(''Id'', JStr ''sha256:0123'')]])
                             else Inl (ValueError ''Expecting value''))\<rparr>\<close>

definition two_host :: host where
  "two_host = example_host
     \<lparr>docker_run := (\<lambda>hist argv. Inr ''[1, 2]''),
      json_loads := (\<lambda>data. if data = ''[1, 2]'' then Inr (JArray [JInt 1, JInt 2])
                             else Inl (ValueError ''Expecting value''))\<rparr>"

definition null_host :: host where
  "null_host = example_host
     \<lparr>docker_run := (\<lambda>hist argv. Inr ''[null]''),
      json_loads := (\<lambda>data. if data = ''[null]'' then Inr (JArray [JNull])
                             else Inl (ValueError ''Expecting value''))\<rparr>"

definition garbled_host :: host where
  "garbled_host = example_host \<lparr>docker_run := (\<lambda>hist argv. Inr ''not json'')\<rparr>"

definition s0 :: state where
  "s0 = \<lparr>inspected_images = Map.empty, events = []\<rparr>"

text \<open>The state after \<^verbatim>\<open>docker_image_exists\<close> has found the image \<^verbatim>\<open>img\<close> on \<open>record_host\<close>.\<close>

definition cached_state :: state where
  "cached_state =
     \<lparr>inspected_images = [''img'' \<mapsto> JObject [(''Id'', JStr ''sha256:0123'')]],
      events = [LogInfo ''Checking if base image exists...'',
                Run [''docker'', ''image'', ''inspect'', ''img''],
                LogInfo ''Base image found. Won't generate new base image'']\<rparr>"

section \<open>Reading back a JSON array of strings\<close>

text \<open>
  A reader for the text of a JSON array of strings, as a consumer of the entrypoint
  instruction reads it; it is not part of \<^verbatim>\<open>docker.py\<close> and serves to state that the text
  written by \<^verbatim>\<open>json.dumps\<close> gives back the tokens. \<open>json_read_chars\<close> reads the characters
  of a string up to its closing quotation mark and returns them with the rest of the
  text; \<open>json_read_elems\<close> reads the elements up to the closing bracket, with one unit of
  fuel for each element.
\<close>

definition hex_value :: "char \<Rightarrow> nat option" where
  "hex_value c =
     (let n = (of_char c :: nat)
      in if 48 \<le> n \<and> n \<le> 57 then Some (n - 48)
         else if 97 \<le> n \<and> n \<le> 102 then Some (n - 87)
         else if 65 \<le> n \<and> n \<le> 70 then Some (n - 55)
         else None)"

definition json_unescape :: "char \<Rightarrow> char option" where
  "json_unescape e =
     (if e = CHR 0x22 then Some (CHR 0x22)
      else if e = backslash then Some backslash
      else if e = CHR ''/'' then Some (CHR ''/'')
      else if e = CHR ''n'' then Some (CHR 0x0A)
      else if e = CHR ''r'' then Some (CHR 0x0D)
      else if e = CHR ''t'' then Some (CHR 0x09)
      else if e = CHR ''b'' then Some (CHR 0x08)
      else if e = CHR ''f'' then Some (CHR 0x0C)
      else None)"

fun json_read_chars :: "string \<Rightarrow> (string \<times> string) option" where
  "json_read_chars [] = None"
| "json_read_chars (c # cs) =
     (if c = CHR 0x22 then Some ([], cs)
      else if c = backslash then
        (case cs of
           [] \<Rightarrow> None
         | e # r \<Rightarrow>
             if e = CHR ''u'' then
               (case r of
                  a # b # x # y # r' \<Rightarrow>
                    (case (hex_value a, hex_value b, hex_value x, hex_value y) of
                       (Some i, Some j, Some p, Some q) \<Rightarrow>
                         if i = 0 \<and> j = 0 then
                           map_option (\<lambda>(d, rest). (char_of (16 * p + q) # d, rest))
                             (json_read_chars r')
                         else None
                     | _ \<Rightarrow> None)
                | _ \<Rightarrow> None)
             else
               (case json_unescape e of
                  None \<Rightarrow> None
                | Some ch \<Rightarrow> map_option (\<lambda>(d, rest). (ch # d, rest)) (json_read_chars r)))
      else map_option (\<lambda>(d, rest). (c # d, rest)) (json_read_chars cs))"

fun json_read_elems :: "nat \<Rightarrow> string \<Rightarrow> string list option" where
  "json_read_elems 0 s = None"
| "json_read_elems (Suc n) s =
     (case s of
        [] \<Rightarrow> None
      | c # cs \<Rightarrow>
          if c = CHR 0x22 then
            (case json_read_chars cs of
               None \<Rightarrow> None
             | Some (t, rest) \<Rightarrow>
                 if rest = '']'' then Some [t]
                 else if prefix '', '' rest
                 then map_option ((#) t) (json_read_elems n (drop 2 rest))
                 else None)
          else None)"

definition json_read_str_array :: "string \<Rightarrow> string list option" where
  "json_read_str_array s =
     (if s = ''[]'' then Some []
      else case s of
             [] \<Rightarrow> None
           | c # cs \<Rightarrow> if c = CHR ''['' then json_read_elems (length cs) cs else None)"

section \<open>Example projects\<close>

text \<open>
  A pip project in \<^verbatim>\<open>/proj\<close>; a host where the project has both \<^verbatim>\<open>requirements.txt\<close>
  and \<^verbatim>\<open>requirements.frozen.txt\<close>, the second entry of the first being unparseable; and
  a host whose engine fails to build.
\<close>

definition example_project :: launch_project where
  "example_project =
     \<lparr>project_dir = ''/proj'', image_name = None, run_id = ''run1'', docker_image = None,
      docker_user_id = None, deps_type = Some ''pip'', python_version = None, cuda = False,
      cuda_version = None, target_project = ''demo'', target_entity = ''team'',
      override_config = JObject [], override_artifacts = JObject []\<rparr>"

definition frozen_host :: host where
  "frozen_host = example_host
     \<lparr>path_exists := (\<lambda>p. p = ''/proj/requirements.frozen.txt'' \<or> p = ''/proj/requirements.txt''),
      parse_requirements := (\<lambda>p. Inr [Inr (Named ''NumPy''), Inl ''invalid requirement'',
                                       Inr (Named ''wandb'')])\<rparr>"

definition failing_build_host :: host where
  "failing_build_host = example_host
     \<lparr>docker_build := (\<lambda>tags file ctx. Inl (DockerError ''build failed''))\<rparr>"

section \<open>Properties\<close>

subsection \<open>Strings\<close>

lemma str_replace_char:
  "str_replace [a] [b] s = map (\<lambda>c. if c = a then b else c) s"
  by (induction s) auto

subsection \<open>The run command\<close>

lemma foldl_append_tokens:
  "foldl (\<lambda>cmd x. cmd @ f x) cmd xs = cmd @ concat (map f xs)"
  by (induction xs arbitrary: cmd) simp_all

lemma is_bool_true_iff: "is_bool_true v = (v = ABool True)"
  by (cases v) auto

lemma get_docker_command_tokens:
  "get_docker_command img env_vars docker_args =
     [''docker'', ''run'', ''--rm'']
     @ concat (map (\<lambda>(env_key, env_value).
                 [''-e'', shlex_quote env_key @ ''='' @ shlex_quote env_value]) env_vars)
     @ concat (map (\<lambda>(name, value).
                 ((if length name = 1 then ''-'' else ''--'') @ shlex_quote name)
                 # (if value = ABool True then [] else [shlex_quote (py_str value)]))
               (case docker_args of None \<Rightarrow> [] | Some args \<Rightarrow> args))
     @ [shlex_quote img]"
proof -
  have env: "(\<lambda>cmd (env_key, env_value).
                cmd @ [''-e'', shlex_quote env_key @ ''='' @ shlex_quote env_value])
             = (\<lambda>cmd x. cmd @ (\<lambda>(env_key, env_value).
                 [''-e'', shlex_quote env_key @ ''='' @ shlex_quote env_value]) x)"
    by (simp add: fun_eq_iff)
  have args: "(\<lambda>cmd (name, value).
                 if is_bool_true value then
                   (if length name = 1 then cmd @ [''-'' @ shlex_quote name]
                    else cmd @ [''--'' @ shlex_quote name])
                 else
                   (if length name = 1
                    then cmd @ [''-'' @ shlex_quote name, shlex_quote (py_str value)]
                    else cmd @ [''--'' @ shlex_quote name, shlex_quote (py_str value)]))
             = (\<lambda>cmd x. cmd @ (\<lambda>(name, value).
                 ((if length name = 1 then ''-'' else ''--'') @ shlex_quote name)
                 # (if value = ABool True then [] else [shlex_quote (py_str value)])) x)"
    by (simp add: fun_eq_iff is_bool_true_iff)
  show ?thesis
    unfolding get_docker_command_def Let_def env args foldl_append_tokens
    by (cases docker_args) simp_all
qed

lemma length_concat_pairs:
  "length (concat (map (\<lambda>(k, v). [f k v, g k v]) xs)) = 2 * length xs"
  by (induction xs) auto

text \<open>
  C6, as the claim states its example: the environment \<^verbatim>\<open>{"A": "1 2"}\<close> does not yield
  the token \<^verbatim>\<open>A=1\ 2\<close>. \<^verbatim>\<open>shlex.quote\<close> quotes with apostrophes, and the token is
  \<^verbatim>\<open>A='1 2'\<close>.
\<close>

theorem get_docker_command_backslash_counterexample:
  "get_docker_command ''img'' [(''A'', ''1 2'')]
     (Some [(''gpus'', AStr ''all''), (''rm'', ABool True)])
   = [''docker'', ''run'', ''--rm'', ''-e'', ''A='' @ [apostrophe] @ ''1 2'' @ [apostrophe],
      ''--gpus'', ''all'', ''--rm'', ''img'']
   \<and> ''A=1'' @ [backslash] @ '' 2''
       \<notin> set (get_docker_command ''img'' [(''A'', ''1 2'')]
                (Some [(''gpus'', AStr ''all''), (''rm'', ABool True)]))"
  by code_simp

text \<open>
  C6 (amended): for every image, environment and \<^verbatim>\<open>docker_args\<close>, the command is
  \<^verbatim>\<open>docker run --rm\<close>, then for each environment variable, in order, the two tokens
  \<^verbatim>\<open>-e\<close> and \<^verbatim>\<open>KEY=VALUE\<close> with key and value each passed through \<^verbatim>\<open>shlex.quote\<close>, then
  for each flag, in order, one dash (a name of one character) or two dashes (any other
  name) before the quoted name, followed by the quoted \<^verbatim>\<open>str()\<close> of the value unless the
  value is the boolean \<^verbatim>\<open>True\<close>, and last the quoted image reference. The environment
  \<^verbatim>\<open>{"A": "1 2"}\<close> yields \<^verbatim>\<open>-e A='1 2'\<close>, \<^verbatim>\<open>{"gpus": "all"}\<close> yields \<^verbatim>\<open>--gpus all\<close>, and
  \<^verbatim>\<open>{"rm": True}\<close> yields the bare flag \<^verbatim>\<open>--rm\<close>.
\<close>

theorem get_docker_command_shape:
  "get_docker_command img env_vars docker_args =
     [''docker'', ''run'', ''--rm'']
     @ concat (map (\<lambda>(env_key, env_value).
                 [''-e'', shlex_quote env_key @ ''='' @ shlex_quote env_value]) env_vars)
     @ concat (map (\<lambda>(name, value).
                 ((if length name = 1 then ''-'' else ''--'') @ shlex_quote name)
                 # (if value = ABool True then [] else [shlex_quote (py_str value)]))
               (case docker_args of None \<Rightarrow> [] | Some args \<Rightarrow> args))
     @ [shlex_quote img]
   \<and> get_docker_command ''img'' [(''A'', ''1 2'')]
       (Some [(''gpus'', AStr ''all''), (''rm'', ABool True)])
     = [''docker'', ''run'', ''--rm'', ''-e'', ''A='' @ [apostrophe] @ ''1 2'' @ [apostrophe],
        ''--gpus'', ''all'', ''--rm'', ''img'']"
proof
  show "get_docker_command img env_vars docker_args =
     [''docker'', ''run'', ''--rm'']
     @ concat (map (\<lambda>(env_key, env_value).
                 [''-e'', shlex_quote env_key @ ''='' @ shlex_quote env_value]) env_vars)
     @ concat (map (\<lambda>(name, value).
                 ((if length name = 1 then ''-'' else ''--'') @ shlex_quote name)
                 # (if value = ABool True then [] else [shlex_quote (py_str value)]))
               (case docker_args of None \<Rightarrow> [] | Some args \<Rightarrow> args))
     @ [shlex_quote img]"
    by (rule get_docker_command_tokens)
  show "get_docker_command ''img'' [(''A'', ''1 2'')]
       (Some [(''gpus'', AStr ''all''), (''rm'', ABool True)])
     = [''docker'', ''run'', ''--rm'', ''-e'', ''A='' @ [apostrophe] @ ''1 2'' @ [apostrophe],
        ''--gpus'', ''all'', ''--rm'', ''img'']"
    by code_simp
qed

text \<open>
  C10: a \<^verbatim>\<open>docker_args\<close> entry whose value is the boolean \<^verbatim>\<open>False\<close>, wherever it stands
  in the dictionary, puts two tokens into the command: the flag (one dash before a name
  of one character, two before any other name) and the value token \<^verbatim>\<open>False\<close>. Before
  them stand the tokens of the entries before it, after them the tokens of the entries
  after it and the image.
\<close>

theorem get_docker_command_false_flag:
  "get_docker_command img env_vars (Some (before @ (name, ABool False) # after)) =
     butlast (get_docker_command img env_vars (Some before))
     @ [(if length name = 1 then ''-'' else ''--'') @ shlex_quote name, ''False'']
     @ drop (3 + 2 * length env_vars) (get_docker_command img env_vars (Some after))"
proof -
  define envs where "envs = concat (map (\<lambda>(env_key, env_value).
       [''-e'', shlex_quote env_key @ ''='' @ shlex_quote env_value]) env_vars)"
  define flags where "flags = (\<lambda>args. concat (map (\<lambda>(name, value).
       ((if length name = 1 then ''-'' else ''--'') @ shlex_quote name)
       # (if value = ABool True then [] else [shlex_quote (py_str value)])) args))"
  have q: "shlex_quote ''False'' = ''False''"
    by code_simp
  have cmd: "get_docker_command img env_vars (Some args) =
      ([''docker'', ''run'', ''--rm''] @ envs) @ flags args @ [shlex_quote img]" for args
    by (simp add: get_docker_command_tokens envs_def flags_def)
  have len: "length ([''docker'', ''run'', ''--rm''] @ envs) = 3 + 2 * length env_vars"
    by (simp add: envs_def length_concat_pairs)
  have split: "flags (before @ (name, ABool False) # after) =
      flags before @ [(if length name = 1 then ''-'' else ''--'') @ shlex_quote name, ''False'']
      @ flags after"
    by (simp add: flags_def q)
  have tail: "drop (3 + 2 * length env_vars) (get_docker_command img env_vars (Some after)) =
      flags after @ [shlex_quote img]"
    unfolding cmd len [symmetric] by simp
  have front: "butlast (get_docker_command img env_vars (Some before)) =
      ([''docker'', ''run'', ''--rm''] @ envs) @ flags before"
    unfolding cmd by (simp add: butlast_append)
  show ?thesis
    unfolding tail front unfolding cmd split by simp
qed

subsection \<open>The image URI\<close>

text \<open>
  C8: the local image URI is the image name with every space replaced by a hyphen
  (\<^verbatim>\<open>wandb-launch\<close> when the name is \<^verbatim>\<open>None\<close> or empty), a colon, the first seven
  characters of the revision hash of the project directory when there is one, and the
  run id; with no revision the tag is the colon and the run id.
\<close>

theorem construct_local_image_uri_tag:
  "construct_local_image_uri last_commit lp =
     (case image_name lp of
        None \<Rightarrow> ''wandb-launch''
      | Some n \<Rightarrow> if n = [] then ''wandb-launch''
                  else map (\<lambda>c. if c = CHR '' '' then CHR ''-'' else c) n)
     @ '':''
     @ (case last_commit (project_dir lp) of None \<Rightarrow> [] | Some h \<Rightarrow> take 7 h)
     @ run_id lp"
  by (simp add: construct_local_image_uri_def get_docker_image_uri_def str_replace_char
      split: option.splits)

subsection \<open>The inspection cache\<close>

lemma exists_cache_cases:
  "inspected_images (snd (docker_image_exists h img sr s)) =
     (case docker_run h (events s @ [LogInfo ''Checking if base image exists...''])
             [''docker'', ''image'', ''inspect'', img] of
        Inl e \<Rightarrow> inspected_images s
      | Inr data \<Rightarrow>
          (case json_loads h data of
             Inl e \<Rightarrow> inspected_images s
           | Inr v \<Rightarrow>
               (case subscript0 v of
                  Inl e \<Rightarrow> inspected_images s
                | Inr parsed \<Rightarrow> (inspected_images s)(img \<mapsto> parsed))))"
  by (simp add: docker_image_exists_def docker_image_exists_except_def emit_def Let_def
      split: sum.splits)

lemma exists_result_cases:
  "fst (docker_image_exists h img sr s) =
     (case docker_run h (events s @ [LogInfo ''Checking if base image exists...''])
             [''docker'', ''image'', ''inspect'', img] of
        Inl e \<Rightarrow> if is_docker_or_value_error e \<and> \<not> sr then Inr False else Inl e
      | Inr data \<Rightarrow>
          (case json_loads h data of
             Inl e \<Rightarrow> if is_docker_or_value_error e \<and> \<not> sr then Inr False else Inl e
           | Inr v \<Rightarrow>
               (case subscript0 v of
                  Inl e \<Rightarrow> if is_docker_or_value_error e \<and> \<not> sr then Inr False else Inl e
                | Inr parsed \<Rightarrow> Inr True)))"
  by (simp add: docker_image_exists_def docker_image_exists_except_def emit_def Let_def
      split: sum.splits)

lemma inspect_hit:
  "inspected_images s img = Some parsed \<Longrightarrow> parsed \<noteq> JNull \<Longrightarrow>
   docker_image_inspect h img s = (Inr parsed, s)"
  by (simp add: docker_image_inspect_def)

lemma inspect_cache_cases:
  "inspected_images (snd (docker_image_inspect h img s)) =
     (if inspected_images s img = None \<or> inspected_images s img = Some JNull
      then inspected_images (snd (docker_image_exists h img True s))
      else inspected_images s)"
  by (simp add: docker_image_inspect_def Let_def split: prod.splits sum.splits option.splits)

text \<open>
  C1, as the claim states it: \<^verbatim>\<open>docker_image_exists\<close> returns \<^verbatim>\<open>True\<close> on an output that
  is not an array of one element. The engine prints \<^verbatim>\<open>[1, 2]\<close>, which \<^verbatim>\<open>json.loads\<close> reads
  as a list of two numbers; the first is stored.
\<close>

theorem docker_image_exists_two_elements_counterexample:
  "json_loads two_host ''[1, 2]'' = Inr (JArray [JInt 1, JInt 2])
   \<and> docker_image_exists two_host ''img'' False s0 =
       (Inr True,
        \<lparr>inspected_images = [''img'' \<mapsto> JInt 1],
         events = [LogInfo ''Checking if base image exists...'',
                   Run [''docker'', ''image'', ''inspect'', ''img''],
                   LogInfo ''Base image found. Won't generate new base image'']\<rparr>)"
  by (simp add: docker_image_exists_def two_host_def example_host_def s0_def emit_def)

text \<open>
  C1 (amended): \<^verbatim>\<open>docker_image_exists\<close> returns \<^verbatim>\<open>True\<close> exactly when the inspect
  invocation returns, its output parses as JSON and the parsed value has a first element
  (\<^verbatim>\<open>value[0]\<close>: a list or a string that is not empty); that first element is then
  stored under the image reference. Whenever the result is not \<^verbatim>\<open>True\<close> the cache is as
  it was. When the invocation raises \<^verbatim>\<open>DockerError\<close> or \<^verbatim>\<open>ValueError\<close>, or the output does
  not parse (\<^verbatim>\<open>ValueError\<close>), the result is \<^verbatim>\<open>False\<close> when \<^verbatim>\<open>should_raise\<close> is false, and that
  exception is raised when it is true. \<open>answer\<close> is what the engine answers to the
  invocation, \<open>r\<close> the result and the state after the call.
\<close>

theorem docker_image_exists_outcome:
  assumes "answer = docker_run h (events s @ [LogInfo ''Checking if base image exists...''])
                      [''docker'', ''image'', ''inspect'', img]"
      and "r = docker_image_exists h img sr s"
  shows "(fst r = Inr True) =
           (\<exists>data v parsed. answer = Inr data \<and> json_loads h data = Inr v
              \<and> subscript0 v = Inr parsed)
       \<and> (\<forall>data v parsed. answer = Inr data \<and> json_loads h data = Inr v
              \<and> subscript0 v = Inr parsed
            \<longrightarrow> inspected_images (snd r) = (inspected_images s)(img \<mapsto> parsed))
       \<and> (fst r \<noteq> Inr True \<longrightarrow> inspected_images (snd r) = inspected_images s)
       \<and> (\<forall>e. is_docker_or_value_error e
              \<and> (answer = Inl e \<or> (\<exists>data. answer = Inr data \<and> json_loads h data = Inl e))
            \<longrightarrow> fst r = (if sr then Inl e else Inr False))"
  unfolding assms
  by (auto simp: exists_cache_cases exists_result_cases split: sum.splits)

theorem docker_image_exists_outcome_witness:
  "fst (docker_image_exists record_host ''img'' False s0) = Inr True
   \<and> inspected_images (snd (docker_image_exists record_host ''img'' False s0))
       = [''img'' \<mapsto> JObject [(''Id'', JStr ''sha256:0123'')]]
   \<and> docker_image_exists example_host ''img'' False s0
       = (Inr False, \<lparr>inspected_images = Map.empty,
            events = [LogInfo ''Checking if base image exists...'',
                      Run [''docker'', ''image'', ''inspect'', ''img''],
                      LogInfo ''Base image not found. Generating new base image'']\<rparr>)
   \<and> fst (docker_image_exists garbled_host ''img'' True s0) = Inl (ValueError ''Expecting value'')
   \<and> inspected_images (snd (docker_image_exists garbled_host ''img'' True s0)) = Map.empty"
  using docker_image_exists_outcome
          [where h = record_host and s = s0 and img = "''img''" and sr = False, OF refl refl]
    docker_image_exists_outcome
          [where h = example_host and s = s0 and img = "''img''" and sr = False, OF refl refl]
    docker_image_exists_outcome
          [where h = garbled_host and s = s0 and img = "''img''" and sr = True, OF refl refl]
  by (simp add: docker_image_exists_def docker_image_exists_except_def record_host_def
      garbled_host_def example_host_def s0_def emit_def)

text \<open>
  C9, as the claim states it: the engine prints \<^verbatim>\<open>[null]\<close>, \<^verbatim>\<open>docker_image_exists\<close> returns
  \<^verbatim>\<open>True\<close> and stores \<^verbatim>\<open>None\<close>, and the \<^verbatim>\<open>docker_image_inspect\<close> that follows invokes the
  engine a second time: \<^verbatim>\<open>d.get(k) is None\<close> does not tell a stored \<^verbatim>\<open>None\<close> from a missing
  key.
\<close>

theorem docker_image_inspect_null_counterexample:
  "fst (docker_image_exists null_host ''img'' False s0) = Inr True
   \<and> docker_image_inspect null_host ''img''
        (snd (docker_image_exists null_host ''img'' False s0))
     = (Inr JNull,
        \<lparr>inspected_images = [''img'' \<mapsto> JNull],
         events = [LogInfo ''Checking if base image exists...'',
                   Run [''docker'', ''image'', ''inspect'', ''img''],
                   LogInfo ''Base image found. Won't generate new base image'',
                   LogInfo ''Checking if base image exists...'',
                   Run [''docker'', ''image'', ''inspect'', ''img''],
                   LogInfo ''Base image found. Won't generate new base image'']\<rparr>)"
  by (simp add: docker_image_inspect_def docker_image_exists_def null_host_def
      example_host_def s0_def emit_def)

text \<open>
  C9 (amended): after \<^verbatim>\<open>docker_image_exists\<close> has returned \<^verbatim>\<open>True\<close> for an image, the cache
  holds a record for it, and when that record is not \<^verbatim>\<open>None\<close> (JSON \<^verbatim>\<open>null\<close>),
  \<^verbatim>\<open>docker_image_inspect\<close> returns it and leaves the state as it is: no event, so no
  engine invocation. No entry is ever removed: a key of the cache is still a key after
  \<^verbatim>\<open>docker_image_exists\<close> and after \<^verbatim>\<open>docker_image_inspect\<close>, with the same record unless
  the call is for that key (and, for \<^verbatim>\<open>docker_image_inspect\<close>, the record is \<^verbatim>\<open>None\<close>).
\<close>

theorem docker_image_inspect_cached:
  "(docker_image_exists h img sr s = (Inr True, s') \<longrightarrow>
      (\<exists>parsed. inspected_images s' img = Some parsed
         \<and> (parsed \<noteq> JNull \<longrightarrow> docker_image_inspect h img s' = (Inr parsed, s'))))
   \<and> (inspected_images s k = Some v \<longrightarrow>
        (\<exists>v'. inspected_images (snd (docker_image_exists h img sr s)) k = Some v'
           \<and> (k \<noteq> img \<longrightarrow> v' = v)))
   \<and> (inspected_images s k = Some v \<longrightarrow>
        (\<exists>v'. inspected_images (snd (docker_image_inspect h img s)) k = Some v'
           \<and> (k \<noteq> img \<or> v \<noteq> JNull \<longrightarrow> v' = v)))"
proof (intro conjI impI)
  assume ex: "docker_image_exists h img sr s = (Inr True, s')"
  from ex have "fst (docker_image_exists h img sr s) = Inr True"
    and s': "s' = snd (docker_image_exists h img sr s)" by simp_all
  then obtain parsed where "inspected_images s' img = Some parsed"
    by (auto simp: exists_result_cases exists_cache_cases split: sum.splits if_splits)
  then show "\<exists>parsed. inspected_images s' img = Some parsed
         \<and> (parsed \<noteq> JNull \<longrightarrow> docker_image_inspect h img s' = (Inr parsed, s'))"
    by (auto simp: inspect_hit)
next
  assume "inspected_images s k = Some v"
  then show "\<exists>v'. inspected_images (snd (docker_image_exists h img sr s)) k = Some v'
           \<and> (k \<noteq> img \<longrightarrow> v' = v)"
    by (auto simp: exists_cache_cases split: sum.splits)
next
  assume "inspected_images s k = Some v"
  then show "\<exists>v'. inspected_images (snd (docker_image_inspect h img s)) k = Some v'
           \<and> (k \<noteq> img \<or> v \<noteq> JNull \<longrightarrow> v' = v)"
    by (auto simp: inspect_cache_cases exists_cache_cases split: sum.splits)
qed

theorem docker_image_inspect_cached_witness:
  "docker_image_exists record_host ''img'' False s0 = (Inr True, cached_state)
   \<and> docker_image_inspect record_host ''img'' cached_state
     = (Inr (JObject [(''Id'', JStr ''sha256:0123'')]), cached_state)
   \<and> inspected_images (snd (docker_image_exists two_host ''other'' False cached_state)) ''img''
     = Some (JObject [(''Id'', JStr ''sha256:0123'')])
   \<and> inspected_images (snd (docker_image_inspect example_host ''other'' cached_state)) ''img''
     = Some (JObject [(''Id'', JStr ''sha256:0123'')])"
proof -
  have ex: "docker_image_exists record_host ''img'' False s0 = (Inr True, cached_state)"
    by (simp add: docker_image_exists_def record_host_def example_host_def s0_def
        cached_state_def emit_def)
  have cached: "inspected_images cached_state ''img''
      = Some (JObject [(''Id'', JStr ''sha256:0123'')])"
    by (simp add: cached_state_def)
  have other: "''img'' \<noteq> ''other''"
    by simp
  from docker_image_inspect_cached
         [of record_host "''img''" False s0 cached_state "''img''" JNull]
    docker_image_inspect_cached
         [of two_host "''other''" False cached_state cached_state "''img''"
             "JObject [(''Id'', JStr ''sha256:0123'')]"]
    docker_image_inspect_cached
         [of example_host "''other''" False cached_state cached_state "''img''"
             "JObject [(''Id'', JStr ''sha256:0123'')]"]
    ex cached other
  show ?thesis
    by auto
qed

subsection \<open>Splitting at whitespace and at a separator\<close>

lemma split_ws_from_tokens:
  "\<forall>c \<in> set cur. \<not> is_space c \<Longrightarrow> t \<in> set (split_ws_from cur s) \<Longrightarrow>
   t \<noteq> [] \<and> (\<forall>c \<in> set t. \<not> is_space c)"
proof (induction s arbitrary: cur)
  case Nil
  then show ?case by (auto split: if_splits)
next
  case (Cons c s)
  have empty: "t \<in> set (split_ws_from [] s) \<Longrightarrow> t \<noteq> [] \<and> (\<forall>c \<in> set t. \<not> is_space c)"
    using Cons.IH [of "[]"] by simp
  show ?case
  proof (cases "is_space c")
    case True
    show ?thesis
    proof (cases "cur = []")
      case True
      with \<open>is_space c\<close> Cons.prems have "t \<in> set (split_ws_from [] s)" by simp
      then show ?thesis by (rule empty)
    next
      case False
      with \<open>is_space c\<close> Cons.prems have "t = cur \<or> t \<in> set (split_ws_from [] s)" by simp
      then show ?thesis using empty False Cons.prems(1) by blast
    qed
  next
    case False
    with Cons.prems have "t \<in> set (split_ws_from (cur @ [c]) s)" by simp
    moreover have "\<forall>c \<in> set (cur @ [c]). \<not> is_space c" using False Cons.prems by simp
    ultimately show ?thesis using Cons.IH by blast
  qed
qed

lemma split_ws_from_word:
  "\<forall>c \<in> set w. \<not> is_space c \<Longrightarrow> split_ws_from cur (w @ rest) = split_ws_from (cur @ w) rest"
  by (induction w arbitrary: cur) simp_all

lemma is_space_space: "is_space (CHR '' '')"
  by (simp add: is_space_def)

lemma split_ws_from_join:
  "\<forall>a \<in> set args. a \<noteq> [] \<and> (\<forall>c \<in> set a. \<not> is_space c) \<Longrightarrow>
   split_ws_from [] (str_join '' '' args) = args"
proof (induction args)
  case Nil
  then show ?case by simp
next
  case (Cons x xs)
  have x: "x \<noteq> []" "\<forall>c \<in> set x. \<not> is_space c" using Cons.prems by simp_all
  show ?case
  proof (cases xs)
    case Nil
    then show ?thesis using x split_ws_from_word [of x "[]" "[]"] by simp
  next
    case (Cons y ys)
    have "split_ws_from [] (x @ '' '' @ str_join '' '' xs) =
          split_ws_from x ('' '' @ str_join '' '' xs)"
      using x split_ws_from_word [of x "[]"] by simp
    also have "\<dots> = x # split_ws_from [] (str_join '' '' xs)"
      using x by (simp add: is_space_space)
    also have "\<dots> = x # xs"
      using Cons.IH Cons.prems by simp
    finally show ?thesis using Cons by simp
  qed
qed

subsection \<open>The JSON text of a list of strings reads back\<close>

lemma hex_value_hex_digit: "d < 16 \<Longrightarrow> hex_value (hex_digit d) = Some d"
proof -
  have "\<forall>d \<in> set [0..<16]. hex_value (hex_digit d) = Some d"
    by code_simp
  then show "d < 16 \<Longrightarrow> hex_value (hex_digit d) = Some d"
    by simp
qed

lemma hex_value_zero: "hex_value (CHR ''0'') = Some 0"
  by (simp add: hex_value_def)


lemma json_read_unicode:
  "json_read_chars ([backslash, CHR ''u'', CHR ''0'', CHR ''0'',
        hex_digit (of_char c div 16), hex_digit (of_char c mod 16)] @ tail) =
   map_option (\<lambda>(d, rest). (c # d, rest)) (json_read_chars tail)"
proof -
  have "of_char c < (16 * 16 :: nat)"
    using nat_of_char_less_256 [of c] by simp
  then have "of_char c div 16 < (16 :: nat)"
    by (rule less_mult_imp_div_less)
  then have hi: "hex_value (hex_digit (of_char c div 16)) = Some (of_char c div 16)"
    by (rule hex_value_hex_digit)
  have lo: "hex_value (hex_digit (of_char c mod 16)) = Some (of_char c mod 16)"
    by (intro hex_value_hex_digit) simp
  have whole: "char_of (16 * (of_char c div 16) + of_char c mod 16 :: nat) = c"
    by simp
  show ?thesis
    by (simp add: hi lo hex_value_zero whole)
qed

lemma json_read_escape:
  "json_read_chars (json_escape c @ tail) =
   map_option (\<lambda>(d, rest). (c # d, rest)) (json_read_chars tail)"
proof (cases "c = CHR 0x22 \<or> c = backslash \<or> c = CHR 0x0A \<or> c = CHR 0x0D \<or> c = CHR 0x09
                \<or> c = CHR 0x08 \<or> c = CHR 0x0C")
  case True
  then show ?thesis
    by (auto simp: json_escape_def json_unescape_def)
next
  case False
  show ?thesis
  proof (cases "32 \<le> (of_char c :: nat) \<and> (of_char c :: nat) \<le> 126")
    case True
    with False have "json_escape c = [c]"
      by (simp add: json_escape_def)
    then show ?thesis using False by simp
  next
    case outside: False
    with False have "json_escape c = [backslash, CHR ''u'', CHR ''0'', CHR ''0'',
        hex_digit (of_char c div 16), hex_digit (of_char c mod 16)]"
      by (simp add: json_escape_def)
    then show ?thesis using json_read_unicode [of c tail] by simp
  qed
qed

lemma json_read_chars_encode:
  "json_read_chars (concat (map json_escape t) @ CHR 0x22 # rest) = Some (t, rest)"
  by (induction t) (simp_all add: json_read_escape)

lemma json_read_elems_encode:
  "json_read_elems (Suc m) (json_encode_str t @ rest) =
     (if rest = '']'' then Some [t]
      else if prefix '', '' rest then map_option ((#) t) (json_read_elems m (drop 2 rest))
      else None)"
  by (simp add: json_encode_str_def json_read_chars_encode)

lemma json_read_elems_join:
  "length ts < n \<Longrightarrow>
   json_read_elems n (str_join '', '' (map json_encode_str (t # ts)) @ '']'') = Some (t # ts)"
proof (induction ts arbitrary: t n)
  case Nil
  then obtain m where "n = Suc m" by (cases n) auto
  then show ?case
    using json_read_elems_encode [of m t "'']''"] by simp
next
  case (Cons u us)
  then obtain m where n: "n = Suc m" and m: "length us < m" by (cases n) auto
  have ih: "json_read_elems m (str_join '', '' (map json_encode_str (u # us)) @ '']'')
      = Some (u # us)"
    using Cons.IH [OF m] .
  have "json_read_elems (Suc m)
          (json_encode_str t @ '', '' @ str_join '', '' (map json_encode_str (u # us)) @ '']'')
        = map_option ((#) t)
            (json_read_elems m (str_join '', '' (map json_encode_str (u # us)) @ '']''))"
    using json_read_elems_encode
      [of m t "'', '' @ str_join '', '' (map json_encode_str (u # us)) @ '']''"]
    by simp
  then show ?case
    using ih n by simp
qed

lemma json_encode_str_length: "2 \<le> length (json_encode_str t)"
  by (simp add: json_encode_str_def)

lemma length_join_encoded:
  "length ts \<le> length (str_join sep (map json_encode_str ts))"
proof (induction ts)
  case Nil
  then show ?case by simp
next
  case (Cons t ts)
  show ?case
  proof (cases ts)
    case Nil
    then show ?thesis using json_encode_str_length [of t] by simp
  next
    case (Cons u us)
    then show ?thesis using Cons.IH json_encode_str_length [of t] by simp
  qed
qed

lemma json_read_str_array_dumps:
  "json_read_str_array (json_dumps frepr (JArray (map JStr ts))) = Some ts"
proof (cases ts)
  case Nil
  then show ?thesis by (simp add: json_read_str_array_def)
next
  case (Cons t us)
  define body where "body = str_join '', '' (map json_encode_str (t # us)) @ '']''"
  have enc: "map (json_dumps frepr) (map JStr xs) = map json_encode_str xs" for xs
    by (induction xs) simp_all
  have "json_dumps frepr (JArray (map JStr ts)) =
        ''['' @ str_join '', '' (map json_encode_str ts) @ '']''"
    unfolding json_dumps.simps enc ..
  then have dumps: "json_dumps frepr (JArray (map JStr ts)) = CHR ''['' # body"
    unfolding body_def using Cons by simp
  have "length (t # us) \<le> length (str_join '', '' (map json_encode_str (t # us)))"
    by (rule length_join_encoded)
  then have "length us < length body"
    by (simp add: body_def)
  then have elems: "json_read_elems (length body) body = Some (t # us)"
    unfolding body_def by (rule json_read_elems_join)
  have "body \<noteq> '']''"
    unfolding body_def using json_encode_str_length [of t] by (cases us) auto
  then show ?thesis
    unfolding dumps json_read_str_array_def using elems Cons by simp
qed

subsection \<open>The entrypoint fragment\<close>

text \<open>
  C3, as the claim states it: an argument that holds a space is not one token of the
  entrypoint. In the command \<^verbatim>\<open>python train.py --name 'my run'\<close> the argument
  \<^verbatim>\<open>my run\<close>, quoted for the shell, comes out as the two array elements \<^verbatim>\<open>'my\<close> and
  \<^verbatim>\<open>run'\<close>; and splitting the command made of \<^verbatim>\<open>echo\<close> and \<^verbatim>\<open>a b\<close> gives three tokens.
\<close>

theorem get_entrypoint_setup_space_counterexample:
  \<open>fst (get_entrypoint_setup example_host example_project
          (''python train.py --name '' @ [apostrophe] @ ''my run'' @ [apostrophe])
          ''/home/alice'' ''local'' s0)
   = Inr (''ENTRYPOINT ["python", "train.py", "--name", "'' @ [apostrophe] @ ''my", "run''
          @ [apostrophe] @ ''"]'')
   \<and> split_ws (str_join '' '' [''echo'', ''a b'']) = [''echo'', ''a'', ''b'']\<close>
  by code_simp

text \<open>
  C3 (amended): for every backend kind other than \<^verbatim>\<open>sagemaker\<close> the fragment is
  \<^verbatim>\<open>ENTRYPOINT\<close>, a space and the JSON array of \<^verbatim>\<open>entry_cmd.split()\<close>, and nothing else
  happens. The text of the array reads back as exactly those tokens, whatever characters
  they hold. The tokens are the runs of the command without whitespace: none is empty
  and none holds whitespace, so an argument is one token only when it holds no
  whitespace; a command that joins such arguments with spaces splits into them again.
\<close>

theorem get_entrypoint_setup_tokens:
  "(runner_type \<noteq> ''sagemaker'' \<longrightarrow>
      get_entrypoint_setup h lp entry_cmd workdir runner_type s
        = (Inr (''ENTRYPOINT ''
                @ json_dumps (repr_of_float h) (JArray (map JStr (split_ws entry_cmd)))), s))
   \<and> json_read_str_array (json_dumps (repr_of_float h) (JArray (map JStr (split_ws entry_cmd))))
       = Some (split_ws entry_cmd)
   \<and> (\<forall>t \<in> set (split_ws entry_cmd). t \<noteq> [] \<and> (\<forall>c \<in> set t. \<not> is_space c))
   \<and> ((\<forall>a \<in> set args. a \<noteq> [] \<and> (\<forall>c \<in> set a. \<not> is_space c)) \<longrightarrow>
        split_ws (str_join '' '' args) = args)"
proof (intro conjI impI ballI)
  assume "runner_type \<noteq> ''sagemaker''"
  then show "get_entrypoint_setup h lp entry_cmd workdir runner_type s
        = (Inr (''ENTRYPOINT ''
                @ json_dumps (repr_of_float h) (JArray (map JStr (split_ws entry_cmd)))), s)"
    by (simp add: get_entrypoint_setup_def Let_def)
next
  show "json_read_str_array (json_dumps (repr_of_float h) (JArray (map JStr (split_ws entry_cmd))))
       = Some (split_ws entry_cmd)"
    by (rule json_read_str_array_dumps)
next
  fix t assume "t \<in> set (split_ws entry_cmd)"
  then have "t \<noteq> [] \<and> (\<forall>c \<in> set t. \<not> is_space c)"
    unfolding split_ws_def by (intro split_ws_from_tokens [of "[]" t entry_cmd]) simp_all
  then show "t \<noteq> []" and "\<And>c. c \<in> set t \<Longrightarrow> \<not> is_space c"
    by simp_all
next
  assume "\<forall>a \<in> set args. a \<noteq> [] \<and> (\<forall>c \<in> set a. \<not> is_space c)"
  then show "split_ws (str_join '' '' args) = args"
    unfolding split_ws_def by (rule split_ws_from_join)
qed

theorem get_entrypoint_setup_tokens_witness:
  \<open>get_entrypoint_setup example_host example_project ''python train.py --epochs 3''
     ''/home/alice'' ''local'' s0
   = (Inr ''ENTRYPOINT ["python", "train.py", "--epochs", "3"]'', s0)
   \<and> json_read_str_array ''["python", "train.py", "--epochs", "3"]''
     = Some [''python'', ''train.py'', ''--epochs'', ''3'']
   \<and> split_ws (str_join '' '' [''python'', ''train.py'', ''--epochs'', ''3''])
     = [''python'', ''train.py'', ''--epochs'', ''3'']\<close>
proof -
  have args: "\<forall>a \<in> set [''python'', ''train.py'', ''--epochs'', ''3''].
      a \<noteq> [] \<and> (\<forall>c \<in> set a. \<not> is_space c)"
    by (simp add: is_space_def)
  have kind: "''local'' \<noteq> ''sagemaker''"
    by simp
  have tokens: "split_ws ''python train.py --epochs 3'' = [''python'', ''train.py'', ''--epochs'', ''3'']"
    by code_simp
  have dumped: \<open>json_dumps (repr_of_float example_host)
      (JArray (map JStr [''python'', ''train.py'', ''--epochs'', ''3'']))
      = ''["python", "train.py", "--epochs", "3"]''\<close>
    by code_simp
  from get_entrypoint_setup_tokens
         [of "''local''" example_host example_project "''python train.py --epochs 3''"
             "''/home/alice''" s0 "[''python'', ''train.py'', ''--epochs'', ''3'']"]
       args kind
  show ?thesis
    unfolding tokens dumped by simp
qed

subsection \<open>The environment of the container\<close>

lemma map_of_dict_set:
  "map_of (dict_set d k v) k' = (if k' = k then Some v else map_of d k')"
  by (induction d) auto

text \<open>
  C4, as the claim states it: on a platform other than \<^verbatim>\<open>darwin\<close> a local base URL is
  emitted as it is. Here \<^verbatim>\<open>_is_wandb_local_uri\<close> holds of \<^verbatim>\<open>http://localhost:8080\<close>, the
  platform is \<^verbatim>\<open>linux\<close>, and \<^verbatim>\<open>WANDB_BASE_URL\<close> is the loopback URL.
\<close>

theorem get_env_vars_dict_linux_counterexample:
  "get_env_vars_dict (\<lambda>u. u = ''http://localhost:8080'') (\<lambda>u. False) ''linux'' (\<lambda>x. ''0.0'')
     example_project \<lparr>base_url = ''http://localhost:8080'', api_key = ''key''\<rparr>
   = Inr [(''WANDB_BASE_URL'', ''http://localhost:8080''),
          (''WANDB_API_KEY'', ''key''),
          (''WANDB_PROJECT'', ''demo''),
          (''WANDB_ENTITY'', ''team''),
          (''WANDB_LAUNCH'', ''True''),
          (''WANDB_RUN_ID'', ''run1''),
          (''WANDB_CONFIG'', ''{}''),
          (''WANDB_ARTIFACTS'', ''{}'')]"
  by (simp add: get_env_vars_dict_def example_project_def)

text \<open>
  C4 (amended): when the base URL is a local URI (\<^verbatim>\<open>_is_wandb_local_uri\<close>), the platform
  is \<^verbatim>\<open>darwin\<close> and the URL has three fields between colons, \<^verbatim>\<open>WANDB_BASE_URL\<close> is
  \<^verbatim>\<open>http://host.docker.internal:\<close> followed by the third field, the port. Otherwise a
  development URI (\<^verbatim>\<open>_is_wandb_dev_uri\<close>) gives \<^verbatim>\<open>http://host.docker.internal:9002\<close>, and
  any other URL, a local one on another platform included, is emitted unchanged.
\<close>

theorem get_env_vars_dict_base_url:
  "(is_wandb_local_uri (base_url api) \<and> platform = ''darwin''
      \<and> split_on (CHR '':'') (base_url api) = [a, b, port] \<longrightarrow>
      (\<exists>env. get_env_vars_dict is_wandb_local_uri is_wandb_dev_uri platform frepr lp api = Inr env
         \<and> map_of env ''WANDB_BASE_URL'' = Some (''http://host.docker.internal:'' @ port)))
   \<and> (\<not> (is_wandb_local_uri (base_url api) \<and> platform = ''darwin'')
      \<and> is_wandb_dev_uri (base_url api) \<longrightarrow>
      (\<exists>env. get_env_vars_dict is_wandb_local_uri is_wandb_dev_uri platform frepr lp api = Inr env
         \<and> map_of env ''WANDB_BASE_URL'' = Some ''http://host.docker.internal:9002''))
   \<and> (\<not> (is_wandb_local_uri (base_url api) \<and> platform = ''darwin'')
      \<and> \<not> is_wandb_dev_uri (base_url api) \<longrightarrow>
      (\<exists>env. get_env_vars_dict is_wandb_local_uri is_wandb_dev_uri platform frepr lp api = Inr env
         \<and> map_of env ''WANDB_BASE_URL'' = Some (base_url api)))"
  by (auto simp: get_env_vars_dict_def Let_def map_of_dict_set split: option.splits)

theorem get_env_vars_dict_base_url_witness:
  "get_env_vars_dict (\<lambda>u. u = ''http://localhost:8080'') (\<lambda>u. False) ''darwin''
     (\<lambda>x. ''0.0'') example_project \<lparr>base_url = ''http://localhost:8080'', api_key = ''key''\<rparr>
   = Inr [(''WANDB_BASE_URL'', ''http://host.docker.internal:8080''),
          (''WANDB_API_KEY'', ''key''),
          (''WANDB_PROJECT'', ''demo''),
          (''WANDB_ENTITY'', ''team''),
          (''WANDB_LAUNCH'', ''True''),
          (''WANDB_RUN_ID'', ''run1''),
          (''WANDB_CONFIG'', ''{}''),
          (''WANDB_ARTIFACTS'', ''{}'')]
   \<and> get_env_vars_dict (\<lambda>u. False) (\<lambda>u. u = ''https://api.wandb.test'') ''linux''
       (\<lambda>x. ''0.0'') example_project \<lparr>base_url = ''https://api.wandb.test'', api_key = ''key''\<rparr>
     = Inr [(''WANDB_BASE_URL'', ''http://host.docker.internal:9002''),
            (''WANDB_API_KEY'', ''key''),
            (''WANDB_PROJECT'', ''demo''),
            (''WANDB_ENTITY'', ''team''),
            (''WANDB_LAUNCH'', ''True''),
            (''WANDB_RUN_ID'', ''run1''),
            (''WANDB_CONFIG'', ''{}''),
            (''WANDB_ARTIFACTS'', ''{}'')]
   \<and> get_env_vars_dict (\<lambda>u. False) (\<lambda>u. False) ''linux''
       (\<lambda>x. ''0.0'') example_project \<lparr>base_url = ''https://api.wandb.ai'', api_key = ''key''\<rparr>
     = Inr [(''WANDB_BASE_URL'', ''https://api.wandb.ai''),
            (''WANDB_API_KEY'', ''key''),
            (''WANDB_PROJECT'', ''demo''),
            (''WANDB_ENTITY'', ''team''),
            (''WANDB_LAUNCH'', ''True''),
            (''WANDB_RUN_ID'', ''run1''),
            (''WANDB_CONFIG'', ''{}''),
            (''WANDB_ARTIFACTS'', ''{}'')]"
proof -
  have fields: "split_on (CHR '':'') ''http://localhost:8080'' = [''http'', ''//localhost'', ''8080'']"
    by simp
  from get_env_vars_dict_base_url
         [of "\<lambda>u. u = ''http://localhost:8080''"
             "\<lparr>base_url = ''http://localhost:8080'', api_key = ''key''\<rparr>" "''darwin''"
             "''http''" "''//localhost''" "''8080''" "\<lambda>u. False" "\<lambda>x. ''0.0''" example_project]
    get_env_vars_dict_base_url
         [of "\<lambda>u. False"
             "\<lparr>base_url = ''https://api.wandb.test'', api_key = ''key''\<rparr>" "''linux''"
             "''http''" "''//localhost''" "''8080''" "\<lambda>u. u = ''https://api.wandb.test''"
             "\<lambda>x. ''0.0''" example_project]
    get_env_vars_dict_base_url
         [of "\<lambda>u. False"
             "\<lparr>base_url = ''https://api.wandb.ai'', api_key = ''key''\<rparr>" "''linux''"
             "''http''" "''//localhost''" "''8080''" "\<lambda>u. False"
             "\<lambda>x. ''0.0''" example_project]
    fields
  show ?thesis
    by (simp add: get_env_vars_dict_def example_project_def)
qed

subsection \<open>Building the image\<close>

text \<open>
  What \<^verbatim>\<open>generate_docker_image\<close> does once the build file is rendered, the metadata file
  written and the build context assembled: the two outcomes of the build.
\<close>

lemma generate_docker_image_build_raises:
  assumes "generate_dockerfile h lp entry_cmd runner_type s = (Inr dockerfile_str, s1)"
    and "create_metadata_file h image_uri = None"
    and "create_docker_build_ctx h lp dockerfile_str (emit (MetadataFile image_uri) s1)
           = (Inr ctx, s2)"
    and "docker_build h [image_uri] (os_path_join ctx GENERATED_DOCKERFILE_NAME) ctx
           = Inl (DockerError m)"
  shows "generate_docker_image h lp image_uri entry_cmd runner_type s =
     (Inl (LaunchError (''Error communicating with docker client: '' @ m)),
      emit (Build [image_uri] (os_path_join ctx GENERATED_DOCKERFILE_NAME) ctx) s2)"
  using assms by (simp add: generate_docker_image_def Let_def)

lemma generate_docker_image_build_returns:
  assumes "generate_dockerfile h lp entry_cmd runner_type s = (Inr dockerfile_str, s1)"
    and "create_metadata_file h image_uri = None"
    and "create_docker_build_ctx h lp dockerfile_str (emit (MetadataFile image_uri) s1)
           = (Inr ctx, s2)"
    and "docker_build h [image_uri] (os_path_join ctx GENERATED_DOCKERFILE_NAME) ctx = Inr built"
  shows "generate_docker_image h lp image_uri entry_cmd runner_type s =
     (Inr built,
      (case os_remove h ctx of
         None \<Rightarrow>
           emit (Remove ctx)
             (emit (Build [image_uri] (os_path_join ctx GENERATED_DOCKERFILE_NAME) ctx) s2)
       | Some e \<Rightarrow>
           emit (LogInfo (''Temporary docker context file '' @ ctx @ '' was not deleted.''))
             (emit (Remove ctx)
                (emit (Build [image_uri] (os_path_join ctx GENERATED_DOCKERFILE_NAME) ctx) s2))))"
  using assms by (simp add: generate_docker_image_def Let_def split: option.splits)

text \<open>
  C2: the code at the failing input. The engine fails to build the image of the example
  project: \<^verbatim>\<open>generate_docker_image\<close> raises \<^verbatim>\<open>LaunchError\<close>, and the build invocation is the
  last thing it does. \<^verbatim>\<open>os.remove\<close> is not called on the build context and nothing is
  logged, while a build that returns is followed by \<^verbatim>\<open>os.remove\<close> and, since the context
  is a directory, by the log record.
\<close>

theorem generate_docker_image_build_failure:
  "fst (generate_docker_image failing_build_host example_project ''img:run1''
          ''python train.py'' ''local'' s0)
     = Inl (LaunchError ''Error communicating with docker client: build failed'')
   \<and> drop 7 (events (snd (generate_docker_image failing_build_host example_project ''img:run1''
          ''python train.py'' ''local'' s0)))
     = [Build [''img:run1''] ''/tmp/tmpabc/Dockerfile.wandb-autogenerated'' ''/tmp/tmpabc'']
   \<and> fst (generate_docker_image example_host example_project ''img:run1''
          ''python train.py'' ''local'' s0)
     = Inr ''sha256:0123''
   \<and> drop 7 (events (snd (generate_docker_image example_host example_project ''img:run1''
          ''python train.py'' ''local'' s0)))
     = [Build [''img:run1''] ''/tmp/tmpabc/Dockerfile.wandb-autogenerated'' ''/tmp/tmpabc'',
        Remove ''/tmp/tmpabc'',
        LogInfo ''Temporary docker context file /tmp/tmpabc was not deleted.'']"
  by code_simp

subsection \<open>The dependency-installation fragment\<close>




















lemma frozen_buildx:
  assumes "deps_type lp = Some ''pip''"
    and "path_exists h (os_path_join (project_dir lp) ''requirements.frozen.txt'')"
    and "is_buildx_installed h"
    and "parse_existing_requirements h lp
          (emit (PathExists (os_path_join (project_dir lp) ''requirements.frozen.txt''))
             (emit BuildxProbe s)) = (r, s2)"
  shows "get_requirements_section h lp s =
      (case r of
           Inl e \<Rightarrow> (Inl e, s2)
         | Inr existing \<Rightarrow>
             (Inr (PIP_TEMPLATE ''RUN --mount=type=cache,mode=0777,target=/root/.cache/pip''
                    ''src/requirements.txt src/requirements.frozen.txt _wandb_bootstrap.py''
                    (existing @ ''python _wandb_bootstrap.py'')), s2))"
  using assms
  apply (simp only: get_requirements_section_def Let_def if_True not_True_eq_False if_False simp_thms split_conv prod.case)
  apply (cases r)
   apply simp_all
  done




lemma frozen_nobuildx:
  assumes "deps_type lp = Some ''pip''"
    and "path_exists h (os_path_join (project_dir lp) ''requirements.frozen.txt'')"
    and "\<not> is_buildx_installed h"
    and "parse_existing_requirements h lp
          (emit (PathExists (os_path_join (project_dir lp) ''requirements.frozen.txt''))
             (emit (TermWarn ''Docker BuildX is not installed, for faster builds upgrade docker: https://github.com/docker/buildx#installing'')
                (emit BuildxProbe s))) = (r, s2)"
  shows "get_requirements_section h lp s =
      (case r of
           Inl e \<Rightarrow> (Inl e, s2)
         | Inr existing \<Rightarrow>
             (Inr (PIP_TEMPLATE ''RUN WANDB_DISABLE_CACHE=true''
                    ''src/requirements.txt src/requirements.frozen.txt _wandb_bootstrap.py''
                    (existing @ ''python _wandb_bootstrap.py'')), s2))"
  using assms
  apply (simp only: get_requirements_section_def Let_def if_True not_True_eq_False if_False simp_thms split_conv prod.case)
  apply (cases r)
   apply simp_all
  done













subsection \<open>What rendering does to the host\<close>

lemma events_emit: "events (emit e s) = events s @ [e]"
  by (simp add: emit_def)

lemma parse_requirements_loop_events:
  "\<exists>es. events (snd (parse_requirements_loop outcomes acc s)) = events s @ es
      \<and> set es \<subseteq> range LogWarn"
proof (induction outcomes arbitrary: acc s)
  case Nil
  show ?case by simp
next
  case (Cons outcome rest)
  show ?case
  proof (cases outcome)
    case (Inl e)
    obtain es where "events (snd (parse_requirements_loop rest acc
        (emit (LogWarn (''Unable to parse requirements.txt: '' @ e)) s)))
        = events (emit (LogWarn (''Unable to parse requirements.txt: '' @ e)) s) @ es"
      and "set es \<subseteq> range LogWarn"
      using Cons.IH by blast
    then have "events (snd (parse_requirements_loop (outcome # rest) acc s))
        = events s @ (LogWarn (''Unable to parse requirements.txt: '' @ e) # es)
      \<and> set (LogWarn (''Unable to parse requirements.txt: '' @ e) # es) \<subseteq> range LogWarn"
      using Inl by (simp add: events_emit)
    then show ?thesis by blast
  next
    case (Inr pkg)
    then show ?thesis
      using Cons.IH [of "set_add acc (shlex_quote
          (case pkg of Named n \<Rightarrow> str_lower n | Unnamed t \<Rightarrow> t))" s]
      by (simp add: Let_def)
  qed
qed

lemma parse_existing_requirements_events:
  "\<exists>es. events (snd (parse_existing_requirements h lp s)) = events s @ es
      \<and> set es \<subseteq> {PathExists (os_path_join (project_dir lp) ''requirements.txt''),
                    ReadFile (os_path_join (project_dir lp) ''requirements.txt'')}
                   \<union> range LogWarn"
proof (cases "path_exists h (os_path_join (project_dir lp) ''requirements.txt'')")
  case False
  then have "events (snd (parse_existing_requirements h lp s)) =
      events s @ [PathExists (os_path_join (project_dir lp) ''requirements.txt'')]"
    by (simp add: parse_existing_requirements_def Let_def events_emit)
  then show ?thesis by auto
next
  case True
  let ?s1 = "emit (ReadFile (os_path_join (project_dir lp) ''requirements.txt''))
                 (emit (PathExists (os_path_join (project_dir lp) ''requirements.txt'')) s)"
  have s1: "events ?s1 = events s @ [PathExists (os_path_join (project_dir lp) ''requirements.txt''),
      ReadFile (os_path_join (project_dir lp) ''requirements.txt'')]"
    by (simp add: events_emit)
  show ?thesis
  proof (cases "parse_requirements h (os_path_join (project_dir lp) ''requirements.txt'')")
    case (Inl e)
    with True have "snd (parse_existing_requirements h lp s) = ?s1"
      by (simp add: parse_existing_requirements_def Let_def)
    then show ?thesis using s1 by auto
  next
    case (Inr outcomes)
    with True have "snd (parse_existing_requirements h lp s)
        = snd (parse_requirements_loop outcomes [] ?s1)"
      by (simp add: parse_existing_requirements_def Let_def split: prod.splits)
    moreover obtain es where "events (snd (parse_requirements_loop outcomes [] ?s1))
        = events ?s1 @ es" and "set es \<subseteq> range LogWarn"
      using parse_requirements_loop_events by blast
    ultimately have "events (snd (parse_existing_requirements h lp s)) =
        events s @ ([PathExists (os_path_join (project_dir lp) ''requirements.txt''),
      ReadFile (os_path_join (project_dir lp) ''requirements.txt'')] @ es)
      \<and> set ([PathExists (os_path_join (project_dir lp) ''requirements.txt''),
      ReadFile (os_path_join (project_dir lp) ''requirements.txt'')] @ es) \<subseteq>
        {PathExists (os_path_join (project_dir lp) ''requirements.txt''),
                    ReadFile (os_path_join (project_dir lp) ''requirements.txt'')}
                   \<union> range LogWarn"
      using s1 by auto
    then show ?thesis by blast
  qed
qed


lemma get_requirements_section_snd:
  "snd (get_requirements_section h lp s) =
     (let s1 = (if \<not> is_buildx_installed h then
                  emit (TermWarn ''Docker BuildX is not installed, for faster builds upgrade docker: https://github.com/docker/buildx#installing'')
                    (emit BuildxProbe s)
                else emit BuildxProbe s);
          frozen = os_path_join (project_dir lp) ''requirements.frozen.txt''
      in if deps_type lp = Some ''pip'' then
           (if path_exists h frozen
            then snd (parse_existing_requirements h lp (emit (PathExists frozen) s1))
            else emit (PathExists frozen) s1)
         else s1)"
proof (cases "deps_type lp = Some ''pip''")
  case False
  then show ?thesis
    by (simp add: get_requirements_section_def Let_def)
next
  case pip: True
  show ?thesis
  proof (cases "path_exists h (os_path_join (project_dir lp) ''requirements.frozen.txt'')")
    case False
    with pip show ?thesis
      by (simp add: get_requirements_section_def Let_def)
  next
    case frozen: True
    show ?thesis
    proof (cases "is_buildx_installed h")
      case buildx: True
      obtain r s2 where r: "parse_existing_requirements h lp
          (emit (PathExists (os_path_join (project_dir lp) ''requirements.frozen.txt''))
             (emit BuildxProbe s)) = (r, s2)"
        by (cases "parse_existing_requirements h lp
          (emit (PathExists (os_path_join (project_dir lp) ''requirements.frozen.txt''))
             (emit BuildxProbe s))")
      show ?thesis
        using pip frozen buildx r frozen_buildx [OF pip frozen buildx r]
        by (cases r) (simp_all add: Let_def)
    next
      case nobuildx: False
      obtain r s2 where r: "parse_existing_requirements h lp
          (emit (PathExists (os_path_join (project_dir lp) ''requirements.frozen.txt''))
             (emit (TermWarn ''Docker BuildX is not installed, for faster builds upgrade docker: https://github.com/docker/buildx#installing'')
                (emit BuildxProbe s))) = (r, s2)"
        by (cases "parse_existing_requirements h lp
          (emit (PathExists (os_path_join (project_dir lp) ''requirements.frozen.txt''))
             (emit (TermWarn ''Docker BuildX is not installed, for faster builds upgrade docker: https://github.com/docker/buildx#installing'')
                (emit BuildxProbe s)))")
      show ?thesis
        using pip frozen nobuildx r frozen_nobuildx [OF pip frozen nobuildx r]
        by (cases r) (simp_all add: Let_def)
    qed
  qed
qed

lemma get_requirements_section_events:
  "\<exists>es. events (snd (get_requirements_section h lp s)) = events s @ es
      \<and> set es \<subseteq> {BuildxProbe,
                    PathExists (os_path_join (project_dir lp) ''requirements.frozen.txt''),
                    PathExists (os_path_join (project_dir lp) ''requirements.txt''),
                    ReadFile (os_path_join (project_dir lp) ''requirements.txt'')}
                   \<union> range TermWarn \<union> range LogWarn"
proof -
  define s1 where "s1 = (if \<not> is_buildx_installed h then
                  emit (TermWarn ''Docker BuildX is not installed, for faster builds upgrade docker: https://github.com/docker/buildx#installing'')
                    (emit BuildxProbe s)
                else emit BuildxProbe s)"
  define frozen where "frozen = os_path_join (project_dir lp) ''requirements.frozen.txt''"
  obtain es1 where es1: "events s1 = events s @ es1" "set es1 \<subseteq> {BuildxProbe} \<union> range TermWarn"
    by (cases "is_buildx_installed h") (auto simp: s1_def events_emit)
  obtain es2 where es2: "events (snd (parse_existing_requirements h lp (emit (PathExists frozen) s1)))
      = events (emit (PathExists frozen) s1) @ es2"
    "set es2 \<subseteq> {PathExists (os_path_join (project_dir lp) ''requirements.txt''),
                    ReadFile (os_path_join (project_dir lp) ''requirements.txt'')}
                   \<union> range LogWarn"
    using parse_existing_requirements_events by blast
  have snd: "snd (get_requirements_section h lp s) =
      (if deps_type lp = Some ''pip'' then
           (if path_exists h frozen
            then snd (parse_existing_requirements h lp (emit (PathExists frozen) s1))
            else emit (PathExists frozen) s1)
         else s1)"
    by (simp add: get_requirements_section_snd Let_def s1_def frozen_def)
  consider (a) "snd (get_requirements_section h lp s) = s1"
    | (b) "snd (get_requirements_section h lp s) = emit (PathExists frozen) s1"
    | (c) "snd (get_requirements_section h lp s)
            = snd (parse_existing_requirements h lp (emit (PathExists frozen) s1))"
    using snd by (auto split: if_splits)
  then show ?thesis
  proof cases
    case a
    then show ?thesis using es1 by auto
  next
    case b
    then have "events (snd (get_requirements_section h lp s)) = events s @ (es1 @ [PathExists frozen])"
      using es1 by (simp add: events_emit)
    moreover have "set (es1 @ [PathExists frozen]) \<subseteq> {BuildxProbe,
                    PathExists (os_path_join (project_dir lp) ''requirements.frozen.txt''),
                    PathExists (os_path_join (project_dir lp) ''requirements.txt''),
                    ReadFile (os_path_join (project_dir lp) ''requirements.txt'')}
                   \<union> range TermWarn \<union> range LogWarn"
      using es1 by (auto simp: frozen_def)
    ultimately show ?thesis by blast
  next
    case c
    then have "events (snd (get_requirements_section h lp s))
        = events s @ (es1 @ [PathExists frozen] @ es2)"
      using es1 es2 by (simp add: events_emit)
    moreover have "set (es1 @ [PathExists frozen] @ es2) \<subseteq> {BuildxProbe,
                    PathExists (os_path_join (project_dir lp) ''requirements.frozen.txt''),
                    PathExists (os_path_join (project_dir lp) ''requirements.txt''),
                    ReadFile (os_path_join (project_dir lp) ''requirements.txt'')}
                   \<union> range TermWarn \<union> range LogWarn"
      using es1 es2 by (auto simp: frozen_def)
    ultimately show ?thesis by blast
  qed
qed


lemma get_entrypoint_setup_snd:
  "snd (get_entrypoint_setup h lp cmd wd rt s) =
     (if rt = ''sagemaker''
      then emit (WriteFile (os_path_join (project_dir lp) ''train'') cmd) s else s)"
  by (simp add: get_entrypoint_setup_def Let_def split: option.splits)

lemma get_entrypoint_setup_fst:
  "fst (get_entrypoint_setup h lp cmd wd rt s) =
     (if rt = ''sagemaker'' then
        (case open_write h (os_path_join (project_dir lp) ''train'') of
           Some e \<Rightarrow> Inl e
         | None \<Rightarrow> Inr (SAGEMAKER_ENTRYPOINT_TEMPLATE wd))
      else Inr (''ENTRYPOINT '' @ json_dumps (repr_of_float h) (JArray (map JStr (split_ws cmd)))))"
  by (simp add: get_entrypoint_setup_def Let_def split: option.splits)

lemma get_docker_user_fst: "fst (get_docker_user h lp rt) = getuser h"
  by (simp add: get_docker_user_def Let_def)

lemma DOCKERFILE_TEMPLATE_suffix:
  "suffix (ep @ ''\<newline>'') (DOCKERFILE_TEMPLATE img sec base uid us wd ep)"
proof -
  have "DOCKERFILE_TEMPLATE img sec base uid us wd ep
      = butlast (DOCKERFILE_TEMPLATE img sec base uid us wd []) @ ep @ ''\<newline>''"
    by (simp add: DOCKERFILE_TEMPLATE_def butlast_append)
  then show ?thesis
    by (metis suffixI)
qed

lemma generate_dockerfile_steps:
  assumes "get_requirements_section h lp s = (r1, s1)"
    and "get_entrypoint_setup h lp cmd (''/home/'' @ getuser h) rt s1 = (r2, s2)"
  shows "(snd (generate_dockerfile h lp cmd rt s) = s
          \<or> snd (generate_dockerfile h lp cmd rt s) = s1
          \<or> snd (generate_dockerfile h lp cmd rt s) = s2)
       \<and> (case fst (generate_dockerfile h lp cmd rt s) of
            Inl e \<Rightarrow> True
          | Inr doc \<Rightarrow>
              snd (generate_dockerfile h lp cmd rt s) = s2
              \<and> (case r2 of Inl e \<Rightarrow> False | Inr ep \<Rightarrow> suffix (ep @ ''\<newline>'') doc))"
proof -
  obtain username userid where u: "get_docker_user h lp rt = (username, userid)"
    by (cases "get_docker_user h lp rt")
  then have un: "username = getuser h"
    using get_docker_user_fst [of h lp rt] by simp
  show ?thesis
    using assms u un
    unfolding generate_dockerfile_def Let_def
    by (auto simp: DOCKERFILE_TEMPLATE_suffix
        split: sum.splits option.splits prod.splits if_splits list.splits)
qed

text \<open>
  C7, as the claim states it: rendering the example project for \<^verbatim>\<open>sagemaker\<close>, on the host
  where the project has both manifests, asks the engine wrapper for BuildX, tests both
  manifests, reads \<^verbatim>\<open>requirements.txt\<close>, which is not the lock file, logs a warning, and
  writes the command to \<^verbatim>\<open>/proj/train\<close>, in the project directory: no build context
  exists while the build file is rendered.
\<close>

theorem generate_dockerfile_io_counterexample:
  "events (snd (generate_dockerfile frozen_host example_project ''python train.py''
                  ''sagemaker'' s0))
   = [BuildxProbe,
      PathExists ''/proj/requirements.frozen.txt'',
      PathExists ''/proj/requirements.txt'',
      ReadFile ''/proj/requirements.txt'',
      LogWarn ''Unable to parse requirements.txt: invalid requirement'',
      WriteFile ''/proj/train'' ''python train.py'']"
  by code_simp

text \<open>
  C7 (amended): whatever the backend, the events of \<^verbatim>\<open>generate_dockerfile\<close> are the
  BuildX probe, a warning on the terminal, the tests for \<^verbatim>\<open>requirements.frozen.txt\<close> and
  \<^verbatim>\<open>requirements.txt\<close> in the project directory, the reading of \<^verbatim>\<open>requirements.txt\<close>,
  warnings in the log and, for \<^verbatim>\<open>sagemaker\<close> only, the writing of the command to the file
  \<^verbatim>\<open>train\<close> of the project directory. When rendering for \<^verbatim>\<open>sagemaker\<close> returns a document,
  that write is the last event, the file could be opened, and the document ends with the
  fragment that copies \<^verbatim>\<open>./src/train\<close>, makes it executable and has the entrypoint
  \<^verbatim>\<open>["sh", "train"]\<close>.
\<close>

theorem generate_dockerfile_io:
  "\<exists>es. events (snd (generate_dockerfile h lp entry_cmd runner_type s)) = events s @ es
      \<and> set es \<subseteq> {BuildxProbe,
                    PathExists (os_path_join (project_dir lp) ''requirements.frozen.txt''),
                    PathExists (os_path_join (project_dir lp) ''requirements.txt''),
                    ReadFile (os_path_join (project_dir lp) ''requirements.txt'')}
                   \<union> range TermWarn \<union> range LogWarn
                   \<union> (if runner_type = ''sagemaker''
                      then {WriteFile (os_path_join (project_dir lp) ''train'') entry_cmd}
                      else {})
      \<and> (\<forall>doc. runner_type = ''sagemaker''
             \<and> fst (generate_dockerfile h lp entry_cmd runner_type s) = Inr doc \<longrightarrow>
             es \<noteq> []
             \<and> last es = WriteFile (os_path_join (project_dir lp) ''train'') entry_cmd
             \<and> open_write h (os_path_join (project_dir lp) ''train'') = None
             \<and> suffix (SAGEMAKER_ENTRYPOINT_TEMPLATE (''/home/'' @ getuser h) @ ''\<newline>'') doc)"
proof -
  let ?allowed = "{BuildxProbe,
                    PathExists (os_path_join (project_dir lp) ''requirements.frozen.txt''),
                    PathExists (os_path_join (project_dir lp) ''requirements.txt''),
                    ReadFile (os_path_join (project_dir lp) ''requirements.txt'')}
                   \<union> range TermWarn \<union> range LogWarn"
  let ?w = "WriteFile (os_path_join (project_dir lp) ''train'') entry_cmd"
  let ?script = "if runner_type = ''sagemaker'' then {?w} else {}"
  let ?r = "generate_dockerfile h lp entry_cmd runner_type s"
  obtain r1 s1 where r1: "get_requirements_section h lp s = (r1, s1)"
    by (cases "get_requirements_section h lp s")
  obtain r2 s2 where r2: "get_entrypoint_setup h lp entry_cmd (''/home/'' @ getuser h)
      runner_type s1 = (r2, s2)"
    by (cases "get_entrypoint_setup h lp entry_cmd (''/home/'' @ getuser h) runner_type s1")
  obtain es1 where es1: "events s1 = events s @ es1" "set es1 \<subseteq> ?allowed"
    using get_requirements_section_events [of h lp s] r1 by auto
  have s2: "s2 = (if runner_type = ''sagemaker'' then emit ?w s1 else s1)"
    using get_entrypoint_setup_snd [of h lp entry_cmd "''/home/'' @ getuser h" runner_type s1] r2
    by simp
  have fst2: "r2 = (if runner_type = ''sagemaker'' then
        (case open_write h (os_path_join (project_dir lp) ''train'') of
           Some e \<Rightarrow> Inl e
         | None \<Rightarrow> Inr (SAGEMAKER_ENTRYPOINT_TEMPLATE (''/home/'' @ getuser h)))
      else Inr (''ENTRYPOINT ''
                @ json_dumps (repr_of_float h) (JArray (map JStr (split_ws entry_cmd)))))"
    using get_entrypoint_setup_fst [of h lp entry_cmd "''/home/'' @ getuser h" runner_type s1] r2
    by simp
  define es2 where "es2 = es1 @ (if runner_type = ''sagemaker'' then [?w] else [])"
  have es2: "events s2 = events s @ es2" "set es2 \<subseteq> ?allowed \<union> ?script"
    using es1 s2 by (auto simp: es2_def events_emit)
  note steps = generate_dockerfile_steps [OF r1 r2]
  show ?thesis
  proof (cases "fst ?r")
    case (Inr doc)
    with steps have snd: "snd ?r = s2"
      and ep: "case r2 of Inl e \<Rightarrow> False | Inr ep \<Rightarrow> suffix (ep @ ''\<newline>'') doc"
      by simp_all
    have "runner_type = ''sagemaker'' \<Longrightarrow>
        es2 \<noteq> [] \<and> last es2 = ?w
        \<and> open_write h (os_path_join (project_dir lp) ''train'') = None
        \<and> suffix (SAGEMAKER_ENTRYPOINT_TEMPLATE (''/home/'' @ getuser h) @ ''\<newline>'') doc"
      using ep fst2 by (auto simp: es2_def split: option.splits sum.splits)
    then show ?thesis
      using snd es2 Inr by (intro exI [of _ es2]) auto
  next
    case (Inl e)
    from steps consider "snd ?r = s" | "snd ?r = s1" | "snd ?r = s2"
      by blast
    then show ?thesis
    proof cases
      case 1
      then show ?thesis using Inl by (intro exI [of _ "[]"]) simp
    next
      case 2
      then show ?thesis using Inl es1 by (intro exI [of _ es1]) auto
    next
      case 3
      then show ?thesis using Inl es2 by (intro exI [of _ es2]) auto
    qed
  qed
qed

theorem generate_dockerfile_io_witness:
  "events (snd (generate_dockerfile frozen_host example_project ''python train.py''
                  ''sagemaker'' s0))
   = events s0
     @ [BuildxProbe,
        PathExists ''/proj/requirements.frozen.txt'',
        PathExists ''/proj/requirements.txt'',
        ReadFile ''/proj/requirements.txt'',
        LogWarn ''Unable to parse requirements.txt: invalid requirement'',
        WriteFile ''/proj/train'' ''python train.py'']
   \<and> open_write frozen_host ''/proj/train'' = None
   \<and> (case fst (generate_dockerfile frozen_host example_project ''python train.py''
                    ''sagemaker'' s0) of
        Inl e \<Rightarrow> False
      | Inr doc \<Rightarrow> suffix (SAGEMAKER_ENTRYPOINT_TEMPLATE ''/home/alice'' @ ''\<newline>'') doc)"
proof -
  have ev: "events (snd (generate_dockerfile frozen_host example_project ''python train.py''
                  ''sagemaker'' s0))
   = events s0
     @ [BuildxProbe,
        PathExists ''/proj/requirements.frozen.txt'',
        PathExists ''/proj/requirements.txt'',
        ReadFile ''/proj/requirements.txt'',
        LogWarn ''Unable to parse requirements.txt: invalid requirement'',
        WriteFile ''/proj/train'' ''python train.py'']"
    by code_simp
  have ok: "case fst (generate_dockerfile frozen_host example_project ''python train.py''
                    ''sagemaker'' s0) of Inl e \<Rightarrow> False | Inr doc \<Rightarrow> True"
    by code_simp
  have user: "''/home/'' @ getuser frozen_host = ''/home/alice''"
    by (simp add: frozen_host_def example_host_def)
  have train: "os_path_join (project_dir example_project) ''train'' = ''/proj/train''"
    by code_simp
  from generate_dockerfile_io
         [of frozen_host example_project "''python train.py''" "''sagemaker''" s0]
       ev ok
  show ?thesis
    unfolding user train by (auto split: sum.splits)
qed

end
